theory Spec2Isabelle
  imports Complex_Main
begin

section \<open>Python values, exceptions and the runtime\<close>

text \<open>
  The math tool server (\<^verbatim>\<open>mcp_servers/math_tools/server.py\<close>) and the agent graph
  (\<^verbatim>\<open>orchestrators/test_agent_orchestrator/graph.py\<close>) are embedded function by function.
  A Python exception is a value: every function that can raise returns \<open>py_exn + 'a\<close>,
  with \<open>Inl\<close> for the exception. An exception carries its class and the text of
  \<^verbatim>\<open>str(e)\<close>, which is all the code ever reads of it.
\<close>

datatype exn_class =
  ValueError | ZeroDivisionError | OverflowError | TypeError | AttributeError
  | KeyError | IndexError | NameError | JSONDecodeError | ValidationError
  | GraphRecursionError

datatype py_exn = Exn exn_class string

fun exn_str :: "py_exn \<Rightarrow> string" where
  "exn_str (Exn c m) = m"

fun exn_cls :: "py_exn \<Rightarrow> exn_class" where
  "exn_cls (Exn c m) = c"

text \<open>
  The handlers take \<^verbatim>\<open>Union[int, float]\<close>. Integers are Python's unbounded integers.
  The type \<open>'f\<close> of floats is left open: the IEEE operations on it are fields of the
  runtime record below, so every theorem holds for whatever the interpreter computes.
\<close>

datatype 'f number = PyInt int | PyFloat 'f

datatype 'f pyval =
  VNone
  | VBool bool
  | VNum "'f number"
  | VComplex 'f 'f
  | VStr string
  | VList "'f pyval list"
  | VDict "(string \<times> 'f pyval) list"

type_synonym 'f pydict = "(string \<times> 'f pyval) list"

text \<open>
  What the code takes from the interpreter and its standard library. \<open>py_str\<close> is
  \<^verbatim>\<open>str(v)\<close>, which an f-string applies to each \<^verbatim>\<open>{v}\<close>; \<open>py_float\<close> is
  \<^verbatim>\<open>float(s)\<close> on a string; \<open>fl_one\<close> is the literal \<^verbatim>\<open>1.0\<close>; \<open>fl_eq0\<close> and
  \<open>fl_lt0\<close> are \<^verbatim>\<open>f == 0\<close> and \<^verbatim>\<open>f < 0\<close>; \<open>fl_add\<close>, \<open>fl_sub\<close>, \<open>fl_mul\<close> are
  \<^verbatim>\<open>+\<close>, \<^verbatim>\<open>-\<close>, \<^verbatim>\<open>*\<close> when an operand is a float; \<open>fl_truediv\<close> is \<^verbatim>\<open>a / b\<close> for a
  divisor that is not zero; \<open>fl_pow\<close> is \<^verbatim>\<open>**\<close> outside the exact integer case;
  \<open>math_sqrt\<close> is \<^verbatim>\<open>math.sqrt\<close>. Each may raise (an integer too large for a float,
  an overflow in \<^verbatim>\<open>**\<close>), so each returns a sum. \<open>str_capitalize\<close> is
  \<^verbatim>\<open>str.capitalize\<close>, whose case mapping is Unicode's.
\<close>

record 'f py_runtime =
  py_str :: "'f pyval \<Rightarrow> string"
  py_float :: "string \<Rightarrow> py_exn + 'f"
  fl_one :: "'f"
  fl_eq0 :: "'f \<Rightarrow> bool"
  fl_lt0 :: "'f \<Rightarrow> bool"
  fl_add :: "'f number \<Rightarrow> 'f number \<Rightarrow> py_exn + 'f number"
  fl_sub :: "'f number \<Rightarrow> 'f number \<Rightarrow> py_exn + 'f number"
  fl_mul :: "'f number \<Rightarrow> 'f number \<Rightarrow> py_exn + 'f number"
  fl_truediv :: "'f number \<Rightarrow> 'f number \<Rightarrow> py_exn + 'f"
  fl_pow :: "'f number \<Rightarrow> 'f number \<Rightarrow> py_exn + 'f pyval"
  math_sqrt :: "'f number \<Rightarrow> py_exn + 'f"
  str_capitalize :: "string \<Rightarrow> string"

subsection \<open>Arithmetic and comparison on numbers\<close>

fun num_add :: "'f py_runtime \<Rightarrow> 'f number \<Rightarrow> 'f number \<Rightarrow> py_exn + 'f number" where
  "num_add F (PyInt a) (PyInt b) = Inr (PyInt (a + b))"
| "num_add F a b = fl_add F a b"

fun num_sub :: "'f py_runtime \<Rightarrow> 'f number \<Rightarrow> 'f number \<Rightarrow> py_exn + 'f number" where
  "num_sub F (PyInt a) (PyInt b) = Inr (PyInt (a - b))"
| "num_sub F a b = fl_sub F a b"

fun num_mul :: "'f py_runtime \<Rightarrow> 'f number \<Rightarrow> 'f number \<Rightarrow> py_exn + 'f number" where
  "num_mul F (PyInt a) (PyInt b) = Inr (PyInt (a * b))"
| "num_mul F a b = fl_mul F a b"

fun num_eq0 :: "'f py_runtime \<Rightarrow> 'f number \<Rightarrow> bool" where
  "num_eq0 F (PyInt i) = (i = 0)"
| "num_eq0 F (PyFloat f) = fl_eq0 F f"

fun num_lt0 :: "'f py_runtime \<Rightarrow> 'f number \<Rightarrow> bool" where
  "num_lt0 F (PyInt i) = (i < 0)"
| "num_lt0 F (PyFloat f) = fl_lt0 F f"

text \<open>
  \<^verbatim>\<open>a / b\<close>: true division raises ZeroDivisionError on a zero divisor, whatever the
  dividend; the text is the one CPython gives between two integers and with a float.
\<close>

fun zero_division_text :: "'f number \<Rightarrow> 'f number \<Rightarrow> string" where
  "zero_division_text (PyInt a) (PyInt b) = ''division by zero''"
| "zero_division_text a b = ''float division by zero''"

definition num_truediv :: "'f py_runtime \<Rightarrow> 'f number \<Rightarrow> 'f number \<Rightarrow> py_exn + 'f number" where
  "num_truediv F a b =
     (if num_eq0 F b then Inl (Exn ZeroDivisionError (zero_division_text a b))
      else (case fl_truediv F a b of Inl e \<Rightarrow> Inl e | Inr q \<Rightarrow> Inr (PyFloat q)))"

text \<open>
  \<^verbatim>\<open>base ** exponent\<close>: exact on an integer base with a non-negative integer exponent;
  every other case (a float result, a complex one, an error) is the runtime's.
\<close>

fun num_pow :: "'f py_runtime \<Rightarrow> 'f number \<Rightarrow> 'f number \<Rightarrow> py_exn + 'f pyval" where
  "num_pow F (PyInt a) (PyInt b) =
     (if 0 \<le> b then Inr (VNum (PyInt (a ^ nat b))) else fl_pow F (PyInt a) (PyInt b))"
| "num_pow F a b = fl_pow F a b"

definition fmt :: "'f py_runtime \<Rightarrow> 'f number \<Rightarrow> string" where
  "fmt F n = py_str F (VNum n)"

subsection \<open>String methods\<close>

text \<open>
  Strings are lists of characters; a character beyond ASCII stands as its UTF-8 bytes.
  The code only replaces, splits on and searches for ASCII characters, which never occur
  inside a multi-byte sequence.
\<close>

definition str_replace :: "char \<Rightarrow> string \<Rightarrow> string \<Rightarrow> string" where
  \<comment> \<open>\<^verbatim>\<open>s.replace(c, r)\<close> for a pattern \<open>c\<close> of one character\<close>
  "str_replace c r s = concat (map (\<lambda>d. if d = c then r else [d]) s)"

fun str_split :: "char \<Rightarrow> string \<Rightarrow> string list" where
  \<comment> \<open>\<^verbatim>\<open>s.split(c)\<close>: one more part than there are separators\<close>
  "str_split c [] = [[]]"
| "str_split c (d # s) =
     (if d = c then [] # str_split c s
      else (case str_split c s of [] \<Rightarrow> [[d]] | p # ps \<Rightarrow> (d # p) # ps))"

definition str_split1 :: "char \<Rightarrow> string \<Rightarrow> string list" where
  \<comment> \<open>\<^verbatim>\<open>s.split(c, 1)\<close>: at the first separator only\<close>
  "str_split1 c s =
     (if c \<in> set s then [takeWhile (\<lambda>d. d \<noteq> c) s, tl (dropWhile (\<lambda>d. d \<noteq> c) s)]
      else [s])"

definition quoted :: "string \<Rightarrow> string" where
  \<comment> \<open>\<^verbatim>\<open>repr(s)\<close> of a string without quotes, backslashes or control characters\<close>
  "quoted s = [CHR 0x27] @ s @ [CHR 0x27]"

fun join_with :: "string \<Rightarrow> string list \<Rightarrow> string" where
  \<comment> \<open>\<^verbatim>\<open>sep.join(xs)\<close>\<close>
  "join_with sep [] = []"
| "join_with sep [x] = x"
| "join_with sep (x # y # ys) = x @ sep @ join_with sep (y # ys)"

definition times_sign :: string where
  "times_sign = [CHR 0xC3, CHR 0x97]"

definition division_sign :: string where
  "division_sign = [CHR 0xC3, CHR 0xB7]"

definition root_sign :: string where
  "root_sign = [CHR 0xE2, CHR 0x88, CHR 0x9A]"

section \<open>The math tools\<close>

text \<open>
  Each handler returns the dictionary the source builds, its keys in the source's order,
  or raises. The three step strings of the arithmetic tools are the f-strings of the
  source. The handlers \<^verbatim>\<open>divide\<close> and \<^verbatim>\<open>power\<close> are \<open>divide_tool\<close> and
  \<open>power_tool\<close> here.
\<close>

definition add :: "'f py_runtime \<Rightarrow> 'f number \<Rightarrow> 'f number \<Rightarrow> py_exn + 'f pydict" where
  "add F a b =
     (case num_add F a b of
        Inl e \<Rightarrow> Inl e
      | Inr result \<Rightarrow> Inr
          [(''operation'', VStr ''addition''),
           (''expression'', VStr (fmt F a @ '' + '' @ fmt F b)),
           (''result'', VNum result),
           (''steps'', VList
              [VStr (''Step 1: Add '' @ fmt F a @ '' and '' @ fmt F b),
               VStr (fmt F a @ '' + '' @ fmt F b @ '' = '' @ fmt F result),
               VStr (''Final result: '' @ fmt F result)])])"

definition subtract :: "'f py_runtime \<Rightarrow> 'f number \<Rightarrow> 'f number \<Rightarrow> py_exn + 'f pydict" where
  "subtract F a b =
     (case num_sub F a b of
        Inl e \<Rightarrow> Inl e
      | Inr result \<Rightarrow> Inr
          [(''operation'', VStr ''subtraction''),
           (''expression'', VStr (fmt F a @ '' - '' @ fmt F b)),
           (''result'', VNum result),
           (''steps'', VList
              [VStr (''Step 1: Subtract '' @ fmt F b @ '' from '' @ fmt F a),
               VStr (fmt F a @ '' - '' @ fmt F b @ '' = '' @ fmt F result),
               VStr (''Final result: '' @ fmt F result)])])"

definition multiply :: "'f py_runtime \<Rightarrow> 'f number \<Rightarrow> 'f number \<Rightarrow> py_exn + 'f pydict" where
  "multiply F a b =
     (case num_mul F a b of
        Inl e \<Rightarrow> Inl e
      | Inr result \<Rightarrow> Inr
          [(''operation'', VStr ''multiplication''),
           (''expression'', VStr (fmt F a @ '' '' @ times_sign @ '' '' @ fmt F b)),
           (''result'', VNum result),
           (''steps'', VList
              [VStr (''Step 1: Multiply '' @ fmt F a @ '' by '' @ fmt F b),
               VStr (fmt F a @ '' '' @ times_sign @ '' '' @ fmt F b @ '' = '' @ fmt F result),
               VStr (''Final result: '' @ fmt F result)])])"

definition divide_tool :: "'f py_runtime \<Rightarrow> 'f number \<Rightarrow> 'f number \<Rightarrow> py_exn + 'f pydict" where
  "divide_tool F a b =
     (if num_eq0 F b then Inl (Exn ValueError ''Cannot divide by zero'')
      else
        (case num_truediv F a b of
           Inl e \<Rightarrow> Inl e
         | Inr result \<Rightarrow> Inr
             [(''operation'', VStr ''division''),
              (''expression'', VStr (fmt F a @ '' '' @ division_sign @ '' '' @ fmt F b)),
              (''result'', VNum result),
              (''steps'', VList
                 [VStr (''Step 1: Divide '' @ fmt F a @ '' by '' @ fmt F b),
                  VStr (fmt F a @ '' '' @ division_sign @ '' '' @ fmt F b @ '' = '' @ fmt F result),
                  VStr (''Final result: '' @ fmt F result)])]))"

definition power_tool :: "'f py_runtime \<Rightarrow> 'f number \<Rightarrow> 'f number \<Rightarrow> py_exn + 'f pydict" where
  "power_tool F base exponent =
     (case num_pow F base exponent of
        Inl e \<Rightarrow> Inl e
      | Inr result \<Rightarrow> Inr
          [(''operation'', VStr ''exponentiation''),
           (''expression'', VStr (fmt F base @ ''^'' @ fmt F exponent)),
           (''result'', result),
           (''steps'', VList
              [VStr (''Step 1: Raise '' @ fmt F base @ '' to the power of '' @ fmt F exponent),
               VStr (fmt F base @ ''^'' @ fmt F exponent @ '' = '' @ py_str F result),
               VStr (''Final result: '' @ py_str F result)])])"

definition square_root :: "'f py_runtime \<Rightarrow> 'f number \<Rightarrow> py_exn + 'f pydict" where
  "square_root F number =
     (if num_lt0 F number
      then Inl (Exn ValueError ''Cannot calculate square root of a negative number'')
      else
        (case math_sqrt F number of
           Inl e \<Rightarrow> Inl e
         | Inr r \<Rightarrow>
             (let result = PyFloat r in Inr
               [(''operation'', VStr ''square_root''),
                (''expression'', VStr (root_sign @ fmt F number)),
                (''result'', VNum result),
                (''steps'', VList
                   [VStr (''Step 1: Find the square root of '' @ fmt F number),
                    VStr (root_sign @ fmt F number @ '' = '' @ fmt F result),
                    VStr (''Final result: '' @ fmt F result)])])))"

subsection \<open>The equation solver\<close>

text \<open>
  \<open>solve_equation_try\<close> is the body of the \<^verbatim>\<open>try\<close> block, \<open>solve_equation\<close> the whole
  function: \<^verbatim>\<open>except Exception as e\<close> turns whatever the body raised into the error
  dictionary. The difference \<^verbatim>\<open>c - b\<close> is computed for \<^verbatim>\<open>x\<close> and again inside a
  step string; both are the same call, so the model names it once.
\<close>

definition unsupported_format_message :: string where
  "unsupported_format_message =
     ''Failed to solve equation. Make sure it's in a supported format like '2x + 3 = 7'.''"

definition solve_equation_try :: "'f py_runtime \<Rightarrow> string \<Rightarrow> py_exn + 'f pydict" where
  "solve_equation_try F equation =
     (let parts = str_split CHR ''='' (str_replace CHR '' '' [] equation) in
      if length parts \<noteq> 2
      then Inl (Exn ValueError (''Equation must contain exactly one '='' @ [CHR 0x27]))
      else
        (let left = parts ! 0; right = parts ! 1 in
         if CHR ''x'' \<notin> set left
         then Inl (Exn ValueError ''Equation must contain 'x' on the left side'')
         else if CHR ''+'' \<in> set left then
           (case str_split1 CHR ''+'' left of
              [a_part, b_part] \<Rightarrow>
                (case (if CHR ''x'' \<in> set a_part
                       then py_float F (str_replace CHR ''x'' [] a_part)
                       else Inr (fl_one F)) of
                   Inl e \<Rightarrow> Inl e
                 | Inr a \<Rightarrow>
                     (case py_float F b_part of
                        Inl e \<Rightarrow> Inl e
                      | Inr b \<Rightarrow>
                          (case py_float F right of
                             Inl e \<Rightarrow> Inl e
                           | Inr c \<Rightarrow>
                               (case num_sub F (PyFloat c) (PyFloat b) of
                                  Inl e \<Rightarrow> Inl e
                                | Inr d \<Rightarrow>
                                    (case num_truediv F d (PyFloat a) of
                                       Inl e \<Rightarrow> Inl e
                                     | Inr x \<Rightarrow> Inr
                                         [(''operation'', VStr ''solve_equation''),
                                          (''equation'', VStr equation),
                                          (''result'', VNum x),
                                          (''steps'', VList
                                             [VStr (''Step 1: Start with the equation: '' @ equation),
                                              VStr ''Step 2: Isolate the variable x'',
                                              VStr (left @ '' = '' @ right),
                                              VStr (if CHR ''+'' \<in> set left
                                                    then str_replace CHR ''+'' ''-'' left @ '' = '' @ right
                                                           @ '' - '' @ fmt F (PyFloat b)
                                                    else []),
                                              VStr (if CHR ''+'' \<in> set left
                                                    then fmt F (PyFloat a) @ ''x = '' @ fmt F d
                                                    else []),
                                              VStr (if CHR ''+'' \<in> set left
                                                    then ''x = ('' @ fmt F (PyFloat c) @ '' - ''
                                                           @ fmt F (PyFloat b) @ '') / '' @ fmt F (PyFloat a)
                                                    else []),
                                              VStr (''x = '' @ fmt F x),
                                              VStr (''Final solution: x = '' @ fmt F x)])])))))
            | _ \<Rightarrow> Inl (Exn ValueError ''not enough values to unpack (expected 2, got 1)''))
         else Inl (Exn ValueError ''Unsupported equation format'')))"

definition solve_equation :: "'f py_runtime \<Rightarrow> string \<Rightarrow> py_exn + 'f pydict" where
  "solve_equation F equation =
     (case solve_equation_try F equation of
        Inr d \<Rightarrow> Inr d
      | Inl e \<Rightarrow> Inr
          [(''operation'', VStr ''solve_equation''),
           (''equation'', VStr equation),
           (''error'', VStr (exn_str e)),
           (''message'', VStr unsupported_format_message)])"

subsection \<open>Reading the solver's results\<close>

text \<open>
  \<open>solve_error\<close> is the dictionary the \<^verbatim>\<open>except\<close> branch of \<^verbatim>\<open>solve_equation\<close> returns
  for an exception with the text \<open>t\<close>. \<open>equation_terms\<close> is the part of the \<^verbatim>\<open>try\<close> block
  up to the three conversions: the two sides of the equation and the floats \<^verbatim>\<open>a\<close>,
  \<^verbatim>\<open>b\<close>, \<^verbatim>\<open>c\<close>, or the exception of the first step that raises.
  \<open>ends_with_result\<close> says of a result dictionary that its step list is not empty and
  ends with the given words followed by the text of its result.
\<close>

definition solve_error :: "string \<Rightarrow> string \<Rightarrow> 'f pydict" where
  "solve_error equation t =
     [(''operation'', VStr ''solve_equation''),
      (''equation'', VStr equation),
      (''error'', VStr t),
      (''message'', VStr unsupported_format_message)]"

definition equation_terms ::
  "'f py_runtime \<Rightarrow> string \<Rightarrow> py_exn + (string \<times> string \<times> 'f \<times> 'f \<times> 'f)" where
  "equation_terms F equation =
     (let parts = str_split CHR ''='' (str_replace CHR '' '' [] equation) in
      if length parts \<noteq> 2
      then Inl (Exn ValueError (''Equation must contain exactly one '='' @ [CHR 0x27]))
      else
        (let left = parts ! 0; right = parts ! 1 in
         if CHR ''x'' \<notin> set left
         then Inl (Exn ValueError ''Equation must contain 'x' on the left side'')
         else if CHR ''+'' \<in> set left then
           (case str_split1 CHR ''+'' left of
              [a_part, b_part] \<Rightarrow>
                (case (if CHR ''x'' \<in> set a_part
                       then py_float F (str_replace CHR ''x'' [] a_part)
                       else Inr (fl_one F)) of
                   Inl e \<Rightarrow> Inl e
                 | Inr a \<Rightarrow>
                     (case py_float F b_part of
                        Inl e \<Rightarrow> Inl e
                      | Inr b \<Rightarrow>
                          (case py_float F right of
                             Inl e \<Rightarrow> Inl e
                           | Inr c \<Rightarrow> Inr (left, right, a, b, c))))
            | _ \<Rightarrow> Inl (Exn ValueError ''not enough values to unpack (expected 2, got 1)''))
         else Inl (Exn ValueError ''Unsupported equation format'')))"

definition ends_with_result :: "'f py_runtime \<Rightarrow> string \<Rightarrow> 'f pydict \<Rightarrow> bool" where
  "ends_with_result F words d =
     (case (map_of d ''result'', map_of d ''steps'') of
        (Some r, Some (VList steps)) \<Rightarrow> steps \<noteq> [] \<and> last steps = VStr (words @ py_str F r)
      | _ \<Rightarrow> False)"

section \<open>The agent graph\<close>

subsection \<open>Messages and state\<close>

text \<open>
  A tool call is the dictionary the model's response carries, with the keys \<^verbatim>\<open>"name"\<close>,
  \<^verbatim>\<open>"args"\<close> and \<^verbatim>\<open>"id"\<close> that the message type gives every tool call. The id is a
  string or Python's \<^verbatim>\<open>None\<close>: \<open>tc_id\<close> is \<open>None\<close> for a call whose id is \<^verbatim>\<open>None\<close>.
  The two reads of the id in \<^verbatim>\<open>call_tool\<close>, \<^verbatim>\<open>tool_call["id"]\<close> and
  \<^verbatim>\<open>tool_call.get("id", "unknown")\<close>, both give the value under the key, so both are
  \<open>tc_id\<close>: the default of \<^verbatim>\<open>get\<close> is for a missing key, which no tool call of a message
  has.
\<close>

record 'f tool_call =
  tc_name :: string
  tc_args :: "'f pydict"
  tc_id :: "string option"

datatype 'f message =
  HumanMessage string
  | AIMessage string "'f tool_call list"
  | ToolMessage string string
  | SystemMessage string

record 'f TestAgentState =
  messages :: "'f message list"

definition messages_reducer :: "'f message list \<Rightarrow> 'f message list \<Rightarrow> 'f message list" where
  \<comment> \<open>the annotation of \<^verbatim>\<open>messages\<close> in \<^verbatim>\<open>state.py\<close>: \<^verbatim>\<open>lambda x, y: x + y\<close>\<close>
  "messages_reducer x y = x @ y"

fun is_system :: "'f message \<Rightarrow> bool" where
  "is_system (SystemMessage c) = True"
| "is_system m = False"

fun is_tool_message :: "'f message \<Rightarrow> bool" where
  "is_tool_message (ToolMessage c i) = True"
| "is_tool_message m = False"

fun tool_calls_of :: "'f message \<Rightarrow> 'f tool_call list" where
  \<comment> \<open>\<^verbatim>\<open>getattr(message, "tool_calls", [])\<close>: only an AIMessage has the attribute\<close>
  "tool_calls_of (AIMessage c tcs) = tcs"
| "tool_calls_of m = []"

fun tool_call_id :: "'f message \<Rightarrow> string option" where
  "tool_call_id (ToolMessage c i) = Some i"
| "tool_call_id m = None"

fun content :: "'f message \<Rightarrow> string" where
  "content (HumanMessage c) = c"
| "content (AIMessage c tcs) = c"
| "content (ToolMessage c i) = c"
| "content (SystemMessage c) = c"

subsection \<open>Tool schemas and the module's globals\<close>

text \<open>
  An entry of \<^verbatim>\<open>llm_tools\<close> is \<^verbatim>\<open>{"type": "function", "function": {...}}\<close> with a
  parameter object of type \<^verbatim>\<open>"object"\<close>; the record keeps what differs between entries.
\<close>

record param_schema =
  p_name :: string
  p_type :: string
  p_description :: string

record tool_schema =
  fn_name :: string
  fn_description :: string
  fn_properties :: "param_schema list"
  fn_required :: "string list"

definition number_param :: "string \<Rightarrow> string \<Rightarrow> param_schema" where
  "number_param n d = \<lparr> p_name = n, p_type = ''number'', p_description = d \<rparr>"

definition llm_tools_54 :: "tool_schema list" where
  \<comment> \<open>the list assigned to \<^verbatim>\<open>llm_tools\<close> at line 54 of \<^verbatim>\<open>graph.py\<close>\<close>
  "llm_tools_54 =
     [\<lparr> fn_name = ''add'',
        fn_description = ''Adds two numbers and returns the result with steps.'',
        fn_properties = [number_param ''a'' ''The first number'', number_param ''b'' ''The second number''],
        fn_required = [''a'', ''b''] \<rparr>,
      \<lparr> fn_name = ''subtract'',
        fn_description =
          ''Subtracts the second number from the first and returns the result with steps.'',
        fn_properties =
          [number_param ''a'' ''The first number'', number_param ''b'' ''The number to subtract''],
        fn_required = [''a'', ''b''] \<rparr>,
      \<lparr> fn_name = ''multiply'',
        fn_description = ''Multiplies two numbers and returns the result with steps.'',
        fn_properties = [number_param ''a'' ''The first number'', number_param ''b'' ''The second number''],
        fn_required = [''a'', ''b''] \<rparr>,
      \<lparr> fn_name = ''divide'',
        fn_description = ''Divides the first number by the second and returns the result with steps.'',
        fn_properties =
          [number_param ''a'' ''The numerator'',
           number_param ''b'' ''The denominator (cannot be zero)''],
        fn_required = [''a'', ''b''] \<rparr>,
      \<lparr> fn_name = ''power'',
        fn_description = ''Raises a number to a power and returns the result with steps.'',
        fn_properties =
          [number_param ''base'' ''The base number'', number_param ''exponent'' ''The exponent''],
        fn_required = [''base'', ''exponent''] \<rparr>,
      \<lparr> fn_name = ''square_root'',
        fn_description =
          ''Calculates the square root of a number and returns the result with steps.'',
        fn_properties =
          [number_param ''number''
             ''The number to find the square root of (must be non-negative)''],
        fn_required = [''number''] \<rparr>,
      \<lparr> fn_name = ''solve_equation'',
        fn_description =
          ''Solves a simple linear equation in the form 'ax + b = c' and returns the solution with steps.'',
        fn_properties =
          [\<lparr> p_name = ''equation'', p_type = ''string'',
             p_description = ''The equation to solve, e.g., '2x + 3 = 7'' @ [CHR 0x27] \<rparr>],
        fn_required = [''equation''] \<rparr>]"

definition llm_tools_162 :: "tool_schema list" where
  \<comment> \<open>the list assigned to \<^verbatim>\<open>llm_tools\<close> at line 162 of \<^verbatim>\<open>graph.py\<close>\<close>
  "llm_tools_162 =
     [\<lparr> fn_name = ''add_numbers'',
        fn_description = ''Adds two integers and returns the result.'',
        fn_properties =
          [\<lparr> p_name = ''a'', p_type = ''integer'', p_description = ''The first number'' \<rparr>,
           \<lparr> p_name = ''b'', p_type = ''integer'', p_description = ''The second number'' \<rparr>],
        fn_required = [''a'', ''b''] \<rparr>]"

record bound_llm =
  bound_tools :: "tool_schema list"
  tool_choice :: string

definition bind_tools :: "tool_schema list \<Rightarrow> string \<Rightarrow> bound_llm" where
  \<comment> \<open>\<^verbatim>\<open>llm.bind_tools(tools=..., tool_choice=...)\<close>: a client that sends these schemas\<close>
  "bind_tools ts choice = \<lparr> bound_tools = ts, tool_choice = choice \<rparr>"

record module_globals =
  llm_tools :: "tool_schema list"
  llm_with_tools :: bound_llm

text \<open>
  The module's top-level statements run once, in order, when \<^verbatim>\<open>graph.py\<close> is imported;
  an assignment to a name that is already bound rebinds it. The functions of the module
  read the globals as they stand after the last statement.
\<close>

definition module_init :: module_globals where
  "module_init =
     (let llm_tools = llm_tools_54;
          llm_with_tools = bind_tools llm_tools ''auto'';
          llm_tools = llm_tools_162;
          llm_with_tools = bind_tools llm_tools ''auto''
      in \<lparr> llm_tools = llm_tools, llm_with_tools = llm_with_tools \<rparr>)"

definition tool_signature :: "tool_schema \<Rightarrow> string \<times> (string \<times> string) list" where
  \<comment> \<open>a schema's name with the name and type of each parameter\<close>
  "tool_signature t = (fn_name t, map (\<lambda>p. (p_name p, p_type p)) (fn_properties t))"

definition reference_tools :: "(string \<times> (string \<times> string) list) list" where
  \<comment> \<open>the reference tool set of the specification, section 6\<close>
  "reference_tools =
     [(''add'', [(''a'', ''number''), (''b'', ''number'')]),
      (''subtract'', [(''a'', ''number''), (''b'', ''number'')]),
      (''multiply'', [(''a'', ''number''), (''b'', ''number'')]),
      (''divide'', [(''a'', ''number''), (''b'', ''number'')]),
      (''power'', [(''base'', ''number''), (''exponent'', ''number'')]),
      (''square_root'', [(''number'', ''number'')]),
      (''solve_equation'', [(''equation'', ''string'')])]"

definition newline :: string where
  "newline = [CHR 0x0A]"

definition MATH_SYSTEM_PROMPT :: string where
  "MATH_SYSTEM_PROMPT = concat (map (\<lambda>l. l @ newline)
     [''You are a helpful math tutor that helps students solve mathematical problems step by step.'',
      ''You have access to various math tools that can help with calculations. Here's how to use them:'',
      '''',
      ''1. For basic arithmetic (addition, subtraction, multiplication, division):'',
      ''   - Use the appropriate tool (add, subtract, multiply, divide)'',
      ''   '',
      ''2. For exponents and roots:'',
      ''   - Use 'power' for exponents (e.g., 2^3)'',
      ''   - Use 'square_root' for square roots (e.g., '' @ root_sign @ ''9)'',
      ''   '',
      ''3. For solving equations:'',
      ''   - Use 'solve_equation' for linear equations (e.g., '2x + 3 = 7')'',
      '''',
      ''Always break down complex problems into smaller, manageable steps. Show your work and explain each step clearly.'',
      ''When using tools, make sure to provide all required parameters with the correct types.''])"

subsection \<open>The collaborators\<close>

text \<open>
  The language model client, the tool transport and the JSON decoder are outside the
  repository. The first two act on the world, whose state \<open>'w\<close> is threaded through every
  call, so the order of the calls is part of the model. \<open>llm_invoke\<close> is
  \<^verbatim>\<open>llm_with_tools.invoke(messages)\<close>, answering with the content and the tool calls of
  an AIMessage; \<open>mcp_call_tool\<close> is \<^verbatim>\<open>mcp_client.call_tool(name, args)\<close> followed by the
  read of \<^verbatim>\<open>result.text\<close>; \<open>json_loads\<close> is \<^verbatim>\<open>json.loads\<close>.
\<close>

record ('f, 'w) collaborators =
  llm_invoke ::
    "bound_llm \<Rightarrow> 'f message list \<Rightarrow> 'w \<Rightarrow> (py_exn + string \<times> 'f tool_call list) \<times> 'w"
  mcp_call_tool :: "string \<Rightarrow> 'f pydict \<Rightarrow> 'w \<Rightarrow> (py_exn + string) \<times> 'w"
  json_loads :: "string \<Rightarrow> py_exn + 'f pyval"

subsection \<open>Formatting a tool response\<close>

fun type_name :: "'f pyval \<Rightarrow> string" where
  "type_name VNone = ''NoneType''"
| "type_name (VBool b) = ''bool''"
| "type_name (VNum (PyInt i)) = ''int''"
| "type_name (VNum (PyFloat f)) = ''float''"
| "type_name (VComplex x y) = ''complex''"
| "type_name (VStr s) = ''str''"
| "type_name (VList vs) = ''list''"
| "type_name (VDict kvs) = ''dict''"

fun str_contains :: "string \<Rightarrow> string \<Rightarrow> bool" where
  \<comment> \<open>\<^verbatim>\<open>p in s\<close> between strings\<close>
  "str_contains p [] = (p = [])"
| "str_contains p (c # s) = (take (length p) (c # s) = p \<or> str_contains p s)"

fun py_contains :: "string \<Rightarrow> 'f pyval \<Rightarrow> py_exn + bool" where
  \<comment> \<open>\<^verbatim>\<open>key in v\<close> for a string \<open>key\<close>\<close>
  "py_contains k (VDict kvs) = Inr (k \<in> set (map fst kvs))"
| "py_contains k (VList vs) = Inr (VStr k \<in> set vs)"
| "py_contains k (VStr s) = Inr (str_contains k s)"
| "py_contains k v =
     Inl (Exn TypeError (''argument of type '' @ quoted (type_name v) @ '' is not iterable''))"

fun py_get :: "'f pyval \<Rightarrow> string \<Rightarrow> 'f pyval \<Rightarrow> py_exn + 'f pyval" where
  \<comment> \<open>\<^verbatim>\<open>v.get(key, default)\<close>\<close>
  "py_get (VDict kvs) k d = Inr (case map_of kvs k of None \<Rightarrow> d | Some v \<Rightarrow> v)"
| "py_get v k d =
     Inl (Exn AttributeError (quoted (type_name v) @ '' object has no attribute '' @ quoted ''get''))"

fun py_capitalize :: "'f py_runtime \<Rightarrow> 'f pyval \<Rightarrow> py_exn + string" where
  "py_capitalize F (VStr s) = Inr (str_capitalize F s)"
| "py_capitalize F v =
     Inl (Exn AttributeError
            (quoted (type_name v) @ '' object has no attribute '' @ quoted ''capitalize''))"

fun py_truthy :: "'f py_runtime \<Rightarrow> 'f pyval \<Rightarrow> bool" where
  "py_truthy F VNone = False"
| "py_truthy F (VBool b) = b"
| "py_truthy F (VNum n) = (\<not> num_eq0 F n)"
| "py_truthy F (VComplex x y) = (\<not> (fl_eq0 F x \<and> fl_eq0 F y))"
| "py_truthy F (VStr s) = (s \<noteq> [])"
| "py_truthy F (VList vs) = (vs \<noteq> [])"
| "py_truthy F (VDict kvs) = (kvs \<noteq> [])"

definition is_continuation :: "char \<Rightarrow> bool" where
  "is_continuation c = (128 \<le> (of_char c :: nat) \<and> (of_char c :: nat) < 192)"

function utf8_chars :: "string \<Rightarrow> string list" where
  \<comment> \<open>the characters of a string: each lead byte with its continuation bytes\<close>
  "utf8_chars [] = []"
| "utf8_chars (c # s) =
     (c # takeWhile is_continuation s) # utf8_chars (dropWhile is_continuation s)"
  by pat_completeness auto
termination
  by (relation "measure length") (auto simp: length_dropWhile_le less_Suc_eq_le)

fun py_iter :: "'f pyval \<Rightarrow> py_exn + 'f pyval list" where
  \<comment> \<open>the items \<^verbatim>\<open>for x in v\<close> visits\<close>
  "py_iter (VList vs) = Inr vs"
| "py_iter (VStr s) = Inr (map VStr (utf8_chars s))"
| "py_iter (VDict kvs) = Inr (map (\<lambda>kv. VStr (fst kv)) kvs)"
| "py_iter v = Inl (Exn TypeError (quoted (type_name v) @ '' object is not iterable''))"

definition format_tool_response :: "'f py_runtime \<Rightarrow> string \<Rightarrow> 'f pyval \<Rightarrow> py_exn + string" where
  "format_tool_response F tool_name tool_result =
     (case py_contains ''error'' tool_result of
        Inl e \<Rightarrow> Inl e
      | Inr True \<Rightarrow>
          (case py_get tool_result ''message'' (VStr ''Unknown error'') of
             Inl e \<Rightarrow> Inl e
           | Inr m \<Rightarrow> Inr (''Error in '' @ tool_name @ '': '' @ py_str F m))
      | Inr False \<Rightarrow>
          (case py_get tool_result ''operation'' (VStr ''calculation'') of
             Inl e \<Rightarrow> Inl e
           | Inr operation \<Rightarrow>
          (case py_get tool_result ''expression'' (VStr []) of
             Inl e \<Rightarrow> Inl e
           | Inr expression \<Rightarrow>
          (case py_get tool_result ''result'' (VStr []) of
             Inl e \<Rightarrow> Inl e
           | Inr result \<Rightarrow>
          (case py_get tool_result ''steps'' (VList []) of
             Inl e \<Rightarrow> Inl e
           | Inr steps \<Rightarrow>
          (case py_capitalize F operation of
             Inl e \<Rightarrow> Inl e
           | Inr capitalized \<Rightarrow>
          (case (if py_truthy F steps
                 then (case py_iter steps of
                         Inl e \<Rightarrow> Inl e
                       | Inr items \<Rightarrow> Inr
                           ([''## '' @ capitalized @ '': '' @ py_str F expression, ''### Steps:'']
                            @ map (\<lambda>step. ''- '' @ py_str F step) (filter (py_truthy F) items)))
                 else Inr [''## '' @ capitalized @ '': '' @ py_str F expression]) of
             Inl e \<Rightarrow> Inl e
           | Inr response \<Rightarrow> Inr
               (join_with newline
                  (if result \<noteq> VNone \<and> result \<noteq> VStr []
                   then response @ [newline @ ''**Final Result:** '' @ py_str F result]
                   else response)))))))))"

subsection \<open>The nodes\<close>

text \<open>
  \<open>call_llm\<close>: the system prompt goes in front of a local copy of the messages when none
  of them is a SystemMessage; the update holds the response alone. The \<^verbatim>\<open>print\<close>
  statements of the nodes are left out.
\<close>

definition call_llm ::
  "module_globals \<Rightarrow> ('f, 'w) collaborators \<Rightarrow> 'f TestAgentState \<Rightarrow> 'w
     \<Rightarrow> (py_exn + 'f message list) \<times> 'w" where
  "call_llm G E state w =
     (let messages0 = messages state;
          messages1 = (if \<not> list_ex is_system messages0
                       then [SystemMessage MATH_SYSTEM_PROMPT] @ messages0
                       else messages0)
      in case llm_invoke E (llm_with_tools G) messages1 w of
           (Inl e, w') \<Rightarrow> (Inl e, w')
         | (Inr (c, tcs), w') \<Rightarrow> (Inr [AIMessage c tcs], w'))"

text \<open>
  \<^verbatim>\<open>ToolMessage(content=..., tool_call_id=...)\<close>: the message type takes a string for
  the id and refuses \<^verbatim>\<open>None\<close> with a validation error, of whose text the model keeps
  the first line.
\<close>

definition validation_error :: py_exn where
  "validation_error = Exn ValidationError ''1 validation error for ToolMessage''"

definition new_tool_message :: "string \<Rightarrow> string option \<Rightarrow> py_exn + 'f message" where
  "new_tool_message c i =
     (case i of None \<Rightarrow> Inl validation_error | Some s \<Rightarrow> Inr (ToolMessage c s))"

text \<open>
  \<open>tool_attempt\<close> is the body of the outer \<^verbatim>\<open>try\<close> of \<^verbatim>\<open>call_tool\<close> for one tool
  call: the transport, then the inner \<^verbatim>\<open>try\<close> with its handler for
  \<^verbatim>\<open>json.JSONDecodeError\<close>. \<open>call_one\<close> adds the outer handler, which builds an error
  message for whatever escaped; it is one turn of the \<^verbatim>\<open>for\<close> loop. An exception
  raised inside the outer handler, by the construction of its message, leaves the loop and
  \<^verbatim>\<open>call_tool\<close>.
\<close>

definition tool_attempt ::
  "'f py_runtime \<Rightarrow> ('f, 'w) collaborators \<Rightarrow> 'f tool_call \<Rightarrow> 'w \<Rightarrow> (py_exn + 'f message) \<times> 'w" where
  "tool_attempt F E tool_call w =
     (case mcp_call_tool E (''math_tools.'' @ tc_name tool_call) (tc_args tool_call) w of
        (Inl e, w') \<Rightarrow> (Inl e, w')
      | (Inr text, w') \<Rightarrow>
          (case json_loads E text of
             Inl e \<Rightarrow>
               (if exn_cls e = JSONDecodeError
                then (new_tool_message (''Tool response could not be parsed: '' @ text)
                        (tc_id tool_call), w')
                else (Inl e, w'))
           | Inr tool_result \<Rightarrow>
               (case format_tool_response F (tc_name tool_call) tool_result of
                  Inl e \<Rightarrow> (Inl e, w')
                | Inr formatted_response \<Rightarrow>
                    (new_tool_message formatted_response (tc_id tool_call), w'))))"

definition call_one ::
  "'f py_runtime \<Rightarrow> ('f, 'w) collaborators \<Rightarrow> 'f tool_call \<Rightarrow> 'w \<Rightarrow> (py_exn + 'f message) \<times> 'w" where
  "call_one F E tool_call w =
     (case tool_attempt F E tool_call w of
        (Inr m, w') \<Rightarrow> (Inr m, w')
      | (Inl e, w') \<Rightarrow>
          (new_tool_message (''Error calling tool '' @ tc_name tool_call @ '': '' @ exn_str e)
             (tc_id tool_call), w'))"

fun call_tool_loop ::
  "'f py_runtime \<Rightarrow> ('f, 'w) collaborators \<Rightarrow> 'f tool_call list \<Rightarrow> 'f message list \<Rightarrow> 'w
     \<Rightarrow> (py_exn + 'f message list) \<times> 'w" where
  "call_tool_loop F E [] tool_messages w = (Inr tool_messages, w)"
| "call_tool_loop F E (tool_call # rest) tool_messages w =
     (case call_one F E tool_call w of
        (Inl e, w') \<Rightarrow> (Inl e, w')
      | (Inr m, w') \<Rightarrow> call_tool_loop F E rest (tool_messages @ [m]) w')"

definition call_tool ::
  "'f py_runtime \<Rightarrow> ('f, 'w) collaborators \<Rightarrow> 'f TestAgentState \<Rightarrow> 'w
     \<Rightarrow> (py_exn + 'f message list) \<times> 'w" where
  "call_tool F E state w =
     (if messages state = [] then (Inl (Exn IndexError ''list index out of range''), w)
      else
        (let ai_message = last (messages state) in
         call_tool_loop F E (tool_calls_of ai_message) [] w))"

subsection \<open>Routing and the graph\<close>

definition START :: string where
  "START = ''__start__''"

definition END :: string where
  "END = ''__end__''"

definition should_call_tool :: "'f TestAgentState \<Rightarrow> py_exn + string" where
  "should_call_tool state =
     (if messages state = [] then Inl (Exn IndexError ''list index out of range'')
      else
        (let last_message = last (messages state) in
         if tool_calls_of last_message \<noteq> [] then Inr ''call_tool''
         else if is_tool_message last_message then Inr ''call_llm''
         else Inr END))"

text \<open>
  The graph as \<^verbatim>\<open>graph.py\<close> builds it: the nodes of \<^verbatim>\<open>add_node\<close>, the edges of
  \<^verbatim>\<open>add_edge\<close>, and for \<^verbatim>\<open>add_conditional_edges\<close> the source node, the routing function
  and the map from its answers to nodes.
\<close>

record ('f, 'w) state_graph =
  sg_nodes :: "(string \<times> ('f TestAgentState \<Rightarrow> 'w \<Rightarrow> (py_exn + 'f message list) \<times> 'w)) list"
  sg_edges :: "(string \<times> string) list"
  sg_branches ::
    "(string \<times> ('f TestAgentState \<Rightarrow> py_exn + string) \<times> (string \<times> string) list) list"

definition workflow ::
  "'f py_runtime \<Rightarrow> module_globals \<Rightarrow> ('f, 'w) collaborators \<Rightarrow> ('f, 'w) state_graph" where
  "workflow F G E =
     \<lparr> sg_nodes = [(''call_llm_node'', call_llm G E), (''call_tool_node'', call_tool F E)],
       sg_edges = [(START, ''call_llm_node''), (''call_tool_node'', ''call_llm_node'')],
       sg_branches =
         [(''call_llm_node'', should_call_tool, [(''call_tool'', ''call_tool_node''), (END, END)])] \<rparr>"

text \<open>
  How the graph library runs a graph of this shape. One step runs the node's function,
  merges its update into the state with the reducer of \<^verbatim>\<open>messages\<close>, and finds the next
  node: by the routing function and its map when the node has conditional edges, by its
  edge otherwise. A run starts at the target of the edge from \<open>START\<close> and returns the
  state when it reaches \<open>END\<close> after fewer node steps than the library's recursion limit,
  the first argument of \<open>run_graph\<close>; a run that has not reached \<open>END\<close> by then ends in
  the library's GraphRecursionError.
\<close>

definition next_node :: "('f, 'w) state_graph \<Rightarrow> string \<Rightarrow> 'f TestAgentState \<Rightarrow> py_exn + string" where
  "next_node g n state =
     (case map_of (sg_branches g) n of
        Some (router, path_map) \<Rightarrow>
          (case router state of
             Inl e \<Rightarrow> Inl e
           | Inr r \<Rightarrow>
               (case map_of path_map r of
                  None \<Rightarrow> Inl (Exn KeyError (quoted r))
                | Some target \<Rightarrow> Inr target))
      | None \<Rightarrow>
          (case map_of (sg_edges g) n of
             None \<Rightarrow> Inr END
           | Some target \<Rightarrow> Inr target))"

definition graph_step ::
  "('f, 'w) state_graph \<Rightarrow> string \<Rightarrow> 'f TestAgentState \<Rightarrow> 'w
     \<Rightarrow> (py_exn + string \<times> 'f TestAgentState) \<times> 'w" where
  "graph_step g n state w =
     (case map_of (sg_nodes g) n of
        None \<Rightarrow> (Inl (Exn KeyError (quoted n)), w)
      | Some node \<Rightarrow>
          (case node state w of
             (Inl e, w') \<Rightarrow> (Inl e, w')
           | (Inr update, w') \<Rightarrow>
               (let state' = state\<lparr>messages := messages_reducer (messages state) update\<rparr> in
                case next_node g n state' of
                  Inl e \<Rightarrow> (Inl e, w')
                | Inr n' \<Rightarrow> (Inr (n', state'), w'))))"

fun run_graph ::
  "nat \<Rightarrow> ('f, 'w) state_graph \<Rightarrow> string \<Rightarrow> 'f TestAgentState \<Rightarrow> 'w
     \<Rightarrow> (py_exn + 'f TestAgentState) \<times> 'w" where
  "run_graph 0 g n state w = (Inl (Exn GraphRecursionError ''Recursion limit reached''), w)"
| "run_graph (Suc limit) g n state w =
     (if n = END then (Inr state, w)
      else
        (case graph_step g n state w of
           (Inl e, w') \<Rightarrow> (Inl e, w')
         | (Inr (n', state'), w') \<Rightarrow> run_graph limit g n' state' w'))"

text \<open>
  The configurations a run passes through: the node about to run, the state and the
  world. \<open>visits g c c'\<close> holds when a run of \<open>g\<close> that is at \<open>c\<close> is later at \<open>c'\<close>.
\<close>

inductive visits ::
  "('f, 'w) state_graph \<Rightarrow> string \<times> 'f TestAgentState \<times> 'w \<Rightarrow> string \<times> 'f TestAgentState \<times> 'w
     \<Rightarrow> bool"
  for g :: "('f, 'w) state_graph" and c :: "string \<times> 'f TestAgentState \<times> 'w" where
  visits_here: "visits g c c"
| visits_step:
    "visits g c (n, state, w) \<Longrightarrow> n \<noteq> END \<Longrightarrow> graph_step g n state w = (Inr (n', state'), w')
       \<Longrightarrow> visits g c (n', state', w')"

definition test_agent_graph ::
  "nat \<Rightarrow> 'f py_runtime \<Rightarrow> module_globals \<Rightarrow> ('f, 'w) collaborators \<Rightarrow> 'f TestAgentState \<Rightarrow> 'w
     \<Rightarrow> (py_exn + 'f TestAgentState) \<times> 'w" where
  \<comment> \<open>invoking the compiled graph on a state\<close>
  "test_agent_graph limit F G E state w =
     (case map_of (sg_edges (workflow F G E)) START of
        None \<Rightarrow> (Inl (Exn KeyError (quoted START)), w)
      | Some n \<Rightarrow> run_graph limit (workflow F G E) n state w)"

section \<open>An exact runtime, for evaluating examples\<close>

text \<open>
  The closed examples below run the code in a runtime whose floats are exact rationals:
  no rounding, no infinity, no NaN. It agrees with CPython on every value the examples
  compute, all of which a double represents exactly. \<open>exact_float\<close> reads a decimal
  literal (sign, digits, fraction, exponent) between optional white space and raises the
  ValueError of \<^verbatim>\<open>float\<close> on any other string; it does not read the infinities, NaN
  or underscores between digits, which \<^verbatim>\<open>float\<close> accepts.
\<close>

definition digit_char :: "nat \<Rightarrow> char" where
  "digit_char d = char_of (48 + d)"

fun show_nat :: "nat \<Rightarrow> string" where
  "show_nat n = (if n < 10 then [digit_char n] else show_nat (n div 10) @ [digit_char (n mod 10)])"

declare show_nat.simps [simp del]

definition show_int :: "int \<Rightarrow> string" where
  "show_int i = (if i < 0 then CHR ''-'' # show_nat (nat (- i)) else show_nat (nat i))"

fun frac_digits :: "nat \<Rightarrow> rat \<Rightarrow> string" where
  "frac_digits 0 r = []"
| "frac_digits (Suc k) r =
     (if r = 0 then []
      else (let d = nat \<lfloor>r * 10\<rfloor> in digit_char d # frac_digits k (r * 10 - of_nat d)))"

definition show_rat :: "rat \<Rightarrow> string" where
  "show_rat q =
     (let a = \<bar>q\<bar>; ip = nat \<lfloor>a\<rfloor>; fr = a - of_nat ip in
      (if q < 0 then ''-'' else []) @ show_nat ip @ ''.''
        @ (if fr = 0 then ''0'' else frac_digits 17 fr))"

fun show_num :: "rat number \<Rightarrow> string" where
  "show_num (PyInt i) = show_int i"
| "show_num (PyFloat q) = show_rat q"

fun show_val :: "bool \<Rightarrow> rat pyval \<Rightarrow> string" where
  \<comment> \<open>\<^verbatim>\<open>repr(v)\<close> when the flag is set, \<^verbatim>\<open>str(v)\<close> otherwise\<close>
  "show_val r VNone = ''None''"
| "show_val r (VBool b) = (if b then ''True'' else ''False'')"
| "show_val r (VNum n) = show_num n"
| "show_val r (VComplex x y) = ''('' @ show_rat x @ ''+'' @ show_rat y @ ''j)''"
| "show_val r (VStr s) = (if r then quoted s else s)"
| "show_val r (VList vs) = ''['' @ join_with '', '' (map (show_val True) vs) @ '']''"
| "show_val r (VDict kvs) =
     ''{'' @ join_with '', '' (map (\<lambda>kv. quoted (fst kv) @ '': '' @ show_val True (snd kv)) kvs)
       @ ''}''"

definition is_digit :: "char \<Rightarrow> bool" where
  "is_digit c = (48 \<le> (of_char c :: nat) \<and> (of_char c :: nat) \<le> 57)"

definition is_space :: "char \<Rightarrow> bool" where
  "is_space c = (c = CHR '' '' \<or> (9 \<le> (of_char c :: nat) \<and> (of_char c :: nat) \<le> 13))"

definition digits_val :: "string \<Rightarrow> nat" where
  "digits_val ds = foldl (\<lambda>n c. 10 * n + (of_char c - 48)) 0 ds"

definition read_sign :: "string \<Rightarrow> bool \<times> string" where
  \<comment> \<open>an optional sign: whether it is a minus, and the rest\<close>
  "read_sign s =
     (case s of
        [] \<Rightarrow> (False, [])
      | c # t \<Rightarrow> if c = CHR ''-'' then (True, t) else if c = CHR ''+'' then (False, t) else (False, s))"

definition read_exponent :: "string \<Rightarrow> int option" where
  \<comment> \<open>what follows the mantissa: nothing, or \<^verbatim>\<open>e\<close>, an optional sign and digits\<close>
  "read_exponent s =
     (case s of
        [] \<Rightarrow> Some 0
      | c # t \<Rightarrow>
          if c = CHR ''e'' \<or> c = CHR ''E'' then
            (let (neg, ds) = read_sign t in
             if ds \<noteq> [] \<and> list_all is_digit ds
             then Some (if neg then - int (digits_val ds) else int (digits_val ds))
             else None)
          else None)"

definition read_decimal :: "string \<Rightarrow> rat option" where
  "read_decimal s =
     (let (neg, u) = read_sign s;
          ip = takeWhile is_digit u; r1 = dropWhile is_digit u;
          (fp, r2) = (case r1 of
                        [] \<Rightarrow> ([], [])
                      | c # t \<Rightarrow> if c = CHR ''.'' then (takeWhile is_digit t, dropWhile is_digit t)
                                 else ([], r1))
      in if ip = [] \<and> fp = [] then None
         else
           (case read_exponent r2 of
              None \<Rightarrow> None
            | Some e \<Rightarrow>
                (let m = of_nat (digits_val (ip @ fp)) * power_int 10 (e - int (length fp))
                 in Some (if neg then - m else m))))"

definition strip_space :: "string \<Rightarrow> string" where
  "strip_space s = rev (dropWhile is_space (rev (dropWhile is_space s)))"

definition exact_float :: "string \<Rightarrow> py_exn + rat" where
  "exact_float s =
     (case read_decimal (strip_space s) of
        Some q \<Rightarrow> Inr q
      | None \<Rightarrow> Inl (Exn ValueError (''could not convert string to float: '' @ quoted s)))"

fun to_rat :: "rat number \<Rightarrow> rat" where
  "to_rat (PyInt i) = of_int i"
| "to_rat (PyFloat q) = q"

definition is_whole :: "rat \<Rightarrow> bool" where
  "is_whole q = (of_int \<lfloor>q\<rfloor> = q)"

definition exact_pow :: "rat number \<Rightarrow> rat number \<Rightarrow> py_exn + rat pyval" where
  \<comment> \<open>whole exponents only; a fractional exponent is outside the exact runtime\<close>
  "exact_pow a b =
     (if \<not> is_whole (to_rat b) then Inl (Exn OverflowError ''not an exact power'')
      else if to_rat a = 0 \<and> to_rat b < 0
      then Inl (Exn ZeroDivisionError ''0.0 cannot be raised to a negative power'')
      else Inr (VNum (PyFloat (power_int (to_rat a) \<lfloor>to_rat b\<rfloor>))))"

definition sqrt_step :: "nat \<Rightarrow> nat \<Rightarrow> nat" where
  "sqrt_step n h = (if (2 * h + 1) * (2 * h + 1) \<le> n then 2 * h + 1 else 2 * h)"

fun int_sqrt :: "nat \<Rightarrow> nat" where
  "int_sqrt n = (if n < 2 then n else sqrt_step n (int_sqrt (n div 4)))"

declare int_sqrt.simps [simp del]

definition exact_sqrt :: "rat number \<Rightarrow> py_exn + rat" where
  \<comment> \<open>exact on the square of a rational with at most fifteen decimals, truncated otherwise\<close>
  "exact_sqrt n =
     (if to_rat n < 0 then Inl (Exn ValueError ''math domain error'')
      else Inr (of_nat (int_sqrt (nat \<lfloor>to_rat n * 10 ^ 30\<rfloor>)) / 10 ^ 15))"

definition ascii_upper :: "char \<Rightarrow> char" where
  "ascii_upper c =
     (if 97 \<le> (of_char c :: nat) \<and> (of_char c :: nat) \<le> 122 then char_of (of_char c - 32 :: nat)
      else c)"

definition ascii_lower :: "char \<Rightarrow> char" where
  "ascii_lower c =
     (if 65 \<le> (of_char c :: nat) \<and> (of_char c :: nat) \<le> 90 then char_of (of_char c + 32 :: nat)
      else c)"

definition ascii_capitalize :: "string \<Rightarrow> string" where
  \<comment> \<open>\<^verbatim>\<open>str.capitalize\<close> on ASCII text\<close>
  "ascii_capitalize s = (case s of [] \<Rightarrow> [] | c # t \<Rightarrow> ascii_upper c # map ascii_lower t)"

definition exact_rt :: "rat py_runtime" where
  "exact_rt =
     \<lparr> py_str = show_val False,
       py_float = exact_float,
       fl_one = 1,
       fl_eq0 = (\<lambda>q. q = 0),
       fl_lt0 = (\<lambda>q. q < 0),
       fl_add = (\<lambda>a b. Inr (PyFloat (to_rat a + to_rat b))),
       fl_sub = (\<lambda>a b. Inr (PyFloat (to_rat a - to_rat b))),
       fl_mul = (\<lambda>a b. Inr (PyFloat (to_rat a * to_rat b))),
       fl_truediv = (\<lambda>a b. Inr (to_rat a / to_rat b)),
       fl_pow = exact_pow,
       math_sqrt = exact_sqrt,
       str_capitalize = ascii_capitalize \<rparr>"

subsection \<open>Collaborators for the examples\<close>

text \<open>
  A small world for the closed examples. Its state is the list of the requests the tool
  transport has received, oldest first. The transport answers \<^verbatim>\<open>math_tools.ping\<close> with
  the text \<^verbatim>\<open>pong\<close>, \<^verbatim>\<open>math_tools.empty\<close> with \<^verbatim>\<open>{}\<close>, \<^verbatim>\<open>math_tools.pair\<close> with
  \<^verbatim>\<open>[1, 2]\<close>, and raises on any other name. The decoder knows these three texts: the
  first is not JSON, the other two are an empty object and a list of two integers. The
  model answers a conversation without a ToolMessage with two tool calls and any other
  with text alone.
\<close>

definition example_transport ::
  "string \<Rightarrow> rat pydict \<Rightarrow> string list \<Rightarrow> (py_exn + string) \<times> string list" where
  "example_transport name args w =
     (if name = ''math_tools.ping'' then (Inr ''pong'', w @ [name])
      else if name = ''math_tools.empty'' then (Inr ''{}'', w @ [name])
      else if name = ''math_tools.pair'' then (Inr ''[1, 2]'', w @ [name])
      else (Inl (Exn ValueError (''Unknown tool: '' @ name)), w @ [name]))"

definition example_loads :: "string \<Rightarrow> py_exn + rat pyval" where
  "example_loads s =
     (if s = ''{}'' then Inr (VDict [])
      else if s = ''[1, 2]'' then Inr (VList [VNum (PyInt 1), VNum (PyInt 2)])
      else Inl (Exn JSONDecodeError ''Expecting value: line 1 column 1 (char 0)''))"

definition example_calls :: "rat tool_call list" where
  "example_calls =
     [\<lparr> tc_name = ''empty'', tc_args = [], tc_id = Some ''call_1'' \<rparr>,
      \<lparr> tc_name = ''frobnicate'', tc_args = [], tc_id = Some ''call_2'' \<rparr>]"

definition example_llm ::
  "bound_llm \<Rightarrow> rat message list \<Rightarrow> string list
     \<Rightarrow> (py_exn + string \<times> rat tool_call list) \<times> string list" where
  "example_llm b ms w =
     (if list_ex is_tool_message ms then (Inr (''Done.'', []), w)
      else (Inr ([], example_calls), w))"

definition example_env :: "(rat, string list) collaborators" where
  "example_env =
     \<lparr> llm_invoke = example_llm,
       mcp_call_tool = example_transport,
       json_loads = example_loads \<rparr>"

definition example_four_calls :: "rat tool_call list" where
  "example_four_calls =
     example_calls
     @ [\<lparr> tc_name = ''ping'', tc_args = [], tc_id = Some ''call_3'' \<rparr>,
        \<lparr> tc_name = ''pair'', tc_args = [], tc_id = Some ''call_4'' \<rparr>]"

definition example_state :: "rat TestAgentState" where
  "example_state = \<lparr> messages = [HumanMessage ''hi'', AIMessage [] example_four_calls] \<rparr>"

definition example_start :: "rat TestAgentState" where
  "example_start = \<lparr> messages = [HumanMessage ''What is 123 * 456?''] \<rparr>"

definition example_asked :: "rat TestAgentState" where
  \<comment> \<open>\<open>example_start\<close> after the model has asked for the two tools\<close>
  "example_asked =
     \<lparr> messages = [HumanMessage ''What is 123 * 456?'', AIMessage [] example_calls] \<rparr>"

definition example_answered :: "rat TestAgentState" where
  \<comment> \<open>\<open>example_asked\<close> after the tool step\<close>
  "example_answered =
     \<lparr> messages =
         [HumanMessage ''What is 123 * 456?'',
          AIMessage [] example_calls,
          ToolMessage ''## Calculation: '' ''call_1'',
          ToolMessage ''Error calling tool frobnicate: Unknown tool: math_tools.frobnicate''
            ''call_2''] \<rparr>"


section \<open>Properties\<close>

subsection \<open>One turn of the tool loop\<close>

lemma call_one_world:
  "snd (call_one F E tc w) = snd (mcp_call_tool E (''math_tools.'' @ tc_name tc) (tc_args tc) w)"
  by (auto simp: call_one_def tool_attempt_def
           split: prod.splits sum.splits option.splits if_splits)

lemma call_one_with_id:
  assumes "tc_id tc = Some i"
  shows "\<exists>c. call_one F E tc w
               = (Inr (ToolMessage c i),
                  snd (mcp_call_tool E (''math_tools.'' @ tc_name tc) (tc_args tc) w))"
  using assms
  by (auto simp: call_one_def tool_attempt_def new_tool_message_def
           split: prod.splits sum.splits if_splits)

lemma call_one_without_id:
  assumes "tc_id tc = None"
  shows "call_one F E tc w
           = (Inl validation_error,
              snd (mcp_call_tool E (''math_tools.'' @ tc_name tc) (tc_args tc) w))"
  using assms
  by (auto simp: call_one_def tool_attempt_def new_tool_message_def
           split: prod.splits sum.splits if_splits)

lemma call_one_tool_message:
  "call_one F E tc w = (Inr m, w') \<Longrightarrow> is_tool_message m"
  by (auto simp: call_one_def tool_attempt_def new_tool_message_def
           split: prod.splits sum.splits option.splits if_splits)

lemma call_tool_loop_tool_messages:
  "call_tool_loop F E tcs acc w = (Inr ms, w') \<Longrightarrow> list_all is_tool_message acc
     \<Longrightarrow> list_all is_tool_message ms"
proof (induction tcs arbitrary: acc w)
  case Nil
  then show ?case by simp
next
  case (Cons tc tcs)
  obtain r w1 where c: "call_one F E tc w = (r, w1)"
    by (cases "call_one F E tc w")
  show ?case
  proof (cases r)
    case (Inl e)
    then show ?thesis
      using Cons.prems(1) c by simp
  next
    case (Inr m)
    then have "is_tool_message m"
      using call_one_tool_message [of F E tc w m w1] c by simp
    then show ?thesis
      using Cons.IH [of "acc @ [m]" w1] Cons.prems c Inr by simp
  qed
qed

lemma call_tool_loop_with_ids:
  assumes "list_all (\<lambda>tc. tc_id tc \<noteq> None) tcs"
  shows "\<exists>ms. call_tool_loop F E tcs acc w
                = (Inr (acc @ ms),
                   fold (\<lambda>tc w. snd (mcp_call_tool E (''math_tools.'' @ tc_name tc) (tc_args tc) w))
                     tcs w)
              \<and> length ms = length tcs
              \<and> list_all is_tool_message ms
              \<and> map tool_call_id ms = map tc_id tcs"
  using assms
proof (induction tcs arbitrary: acc w)
  case Nil
  then show ?case by simp
next
  case (Cons tc tcs)
  let ?w1 = "snd (mcp_call_tool E (''math_tools.'' @ tc_name tc) (tc_args tc) w)"
  obtain i where i: "tc_id tc = Some i"
    using Cons.prems by auto
  obtain c where c: "call_one F E tc w = (Inr (ToolMessage c i), ?w1)"
    using call_one_with_id [OF i, of F E w] by blast
  have "list_all (\<lambda>tc. tc_id tc \<noteq> None) tcs"
    using Cons.prems by simp
  from Cons.IH [OF this, of "acc @ [ToolMessage c i]" ?w1]
  obtain ms where
    l: "call_tool_loop F E tcs (acc @ [ToolMessage c i]) ?w1
          = (Inr ((acc @ [ToolMessage c i]) @ ms),
             fold (\<lambda>tc w. snd (mcp_call_tool E (''math_tools.'' @ tc_name tc) (tc_args tc) w))
               tcs ?w1)"
    and n: "length ms = length tcs"
    and t: "list_all is_tool_message ms"
    and d: "map tool_call_id ms = map tc_id tcs"
    by blast
  have "call_tool_loop F E (tc # tcs) acc w
          = (Inr (acc @ (ToolMessage c i # ms)),
             fold (\<lambda>tc w. snd (mcp_call_tool E (''math_tools.'' @ tc_name tc) (tc_args tc) w))
               (tc # tcs) w)"
    using c l by simp
  moreover have "length (ToolMessage c i # ms) = length (tc # tcs)"
    using n by simp
  moreover have "list_all is_tool_message (ToolMessage c i # ms)"
    using t by simp
  moreover have "map tool_call_id (ToolMessage c i # ms) = map tc_id (tc # tcs)"
    using d i by simp
  ultimately show ?case
    by blast
qed

lemma call_tool_loop_without_id:
  assumes "list_all (\<lambda>tc. tc_id tc \<noteq> None) before" and "tc_id tc = None"
  shows "call_tool_loop F E (before @ tc # rest) acc w
           = (Inl validation_error,
              fold (\<lambda>tc w. snd (mcp_call_tool E (''math_tools.'' @ tc_name tc) (tc_args tc) w))
                (before @ [tc]) w)"
  using assms(1)
proof (induction before arbitrary: acc w)
  case Nil
  then show ?case
    using call_one_without_id [OF assms(2), of F E w] by simp
next
  case (Cons b before)
  let ?w1 = "snd (mcp_call_tool E (''math_tools.'' @ tc_name b) (tc_args b) w)"
  obtain i where i: "tc_id b = Some i"
    using Cons.prems by auto
  obtain c where c: "call_one F E b w = (Inr (ToolMessage c i), ?w1)"
    using call_one_with_id [OF i, of F E w] by blast
  have "list_all (\<lambda>tc. tc_id tc \<noteq> None) before"
    using Cons.prems by simp
  from Cons.IH [OF this, of "acc @ [ToolMessage c i]" ?w1] c
  show ?case
    by simp
qed

lemma call_tool_unfold:
  "messages st \<noteq> [] \<Longrightarrow>
     call_tool F E st w = call_tool_loop F E (tool_calls_of (last (messages st))) [] w"
  by (simp add: call_tool_def Let_def)

lemma call_tool_update:
  assumes "call_tool F E st w = (Inr ms, w')"
  shows "list_all is_tool_message ms"
proof -
  have "messages st \<noteq> []"
    using assms by (auto simp: call_tool_def split: if_splits)
  then have "call_tool_loop F E (tool_calls_of (last (messages st))) [] w = (Inr ms, w')"
    using assms call_tool_unfold [of st F E w] by simp
  then show ?thesis
    using call_tool_loop_tool_messages [of F E "tool_calls_of (last (messages st))" "[]" w ms w']
    by simp
qed

subsection \<open>Domain errors of divide and square_root\<close>

text \<open>
  C3 (as the code has it). The handlers signal a domain error by raising: for every
  dividend and every divisor that compares equal to zero (the integer \<open>0\<close>, or a float
  the runtime finds equal to zero), \<^verbatim>\<open>divide\<close> raises
  \<^verbatim>\<open>ValueError("Cannot divide by zero")\<close> before any quotient is computed, so no
  result, infinity or NaN is produced; for every operand below zero, \<^verbatim>\<open>square_root\<close>
  raises \<^verbatim>\<open>ValueError("Cannot calculate square root of a negative number")\<close>. Neither
  returns a dictionary.
\<close>

theorem C3_domain_errors_raise:
  "(num_eq0 F b \<longrightarrow> divide_tool F a b = Inl (Exn ValueError ''Cannot divide by zero''))
   \<and> (num_lt0 F x \<longrightarrow>
        square_root F x
          = Inl (Exn ValueError ''Cannot calculate square root of a negative number''))"
  by (simp add: divide_tool_def square_root_def)

theorem C3_domain_errors_raise_witness:
  "num_eq0 exact_rt (PyFloat 0)
   \<and> divide_tool exact_rt (PyInt 5) (PyFloat 0) = Inl (Exn ValueError ''Cannot divide by zero'')
   \<and> num_lt0 exact_rt (PyInt (- 4))
   \<and> square_root exact_rt (PyInt (- 4))
       = Inl (Exn ValueError ''Cannot calculate square root of a negative number'')"
  using C3_domain_errors_raise [of exact_rt "PyFloat 0" "PyInt 5" "PyInt (- 4)"]
  by (simp add: exact_rt_def)

text \<open>
  C3 as stated says that \<^verbatim>\<open>divide(a, 0)\<close> returns an error result and does not raise.
  At \<^verbatim>\<open>divide(1, 0)\<close> the handler returns nothing: the call ends in the exception.
\<close>

theorem C3_divide_returns_error_counterexample:
  "divide_tool exact_rt (PyInt 1) (PyInt 0) = Inl (Exn ValueError ''Cannot divide by zero'')"
  by (simp add: divide_tool_def)

subsection \<open>The tool-execution step\<close>

text \<open>
  When every tool call of the last message carries an id, \<^verbatim>\<open>call_tool\<close> returns, and
  its update holds exactly one ToolMessage for each tool call, in the order of the calls:
  the message at each position carries the id of the call at that position. The calls run
  one after the other in the listed order: the world after the step is the world after
  the transport has served the calls from first to last.
\<close>

lemma call_tool_answers_calls_with_ids:
  assumes "messages st \<noteq> []" and "last (messages st) = AIMessage c tcs"
    and "list_all (\<lambda>tc. tc_id tc \<noteq> None) tcs"
  shows "\<exists>ms. call_tool F E st w =
           (Inr ms,
            fold (\<lambda>tc w. snd (mcp_call_tool E (''math_tools.'' @ tc_name tc) (tc_args tc) w)) tcs w)
         \<and> length ms = length tcs
         \<and> list_all is_tool_message ms
         \<and> map tool_call_id ms = map tc_id tcs"
  using call_tool_loop_with_ids [OF assms(3), of F E "[]" w] call_tool_unfold [OF assms(1), of F E w]
    assms(2)
  by simp

lemma call_tool_answers_example_calls:
  "messages example_state \<noteq> []
   \<and> last (messages example_state) = AIMessage [] example_four_calls
   \<and> list_all (\<lambda>tc. tc_id tc \<noteq> None) example_four_calls
   \<and> (\<exists>ms. call_tool exact_rt example_env example_state []
              = (Inr ms,
                 [''math_tools.empty'', ''math_tools.frobnicate'', ''math_tools.ping'',
                  ''math_tools.pair''])
            \<and> length ms = 4
            \<and> list_all is_tool_message ms
            \<and> map tool_call_id ms
                = [Some ''call_1'', Some ''call_2'', Some ''call_3'', Some ''call_4''])"
proof -
  have h1: "messages example_state \<noteq> []"
    by (simp add: example_state_def)
  have h2: "last (messages example_state) = AIMessage [] example_four_calls"
    by (simp add: example_state_def)
  have h3: "list_all (\<lambda>tc. tc_id tc \<noteq> None) example_four_calls"
    by (simp add: example_four_calls_def example_calls_def)
  have served:
    "fold (\<lambda>tc w. snd (mcp_call_tool example_env (''math_tools.'' @ tc_name tc) (tc_args tc) w))
       example_four_calls []
     = [''math_tools.empty'', ''math_tools.frobnicate'', ''math_tools.ping'', ''math_tools.pair'']"
    by (simp add: example_four_calls_def example_calls_def example_env_def
          example_transport_def)
  have ids:
    "map tc_id example_four_calls
     = [Some ''call_1'', Some ''call_2'', Some ''call_3'', Some ''call_4'']"
    by (simp add: example_four_calls_def example_calls_def)
  have len: "length example_four_calls = 4"
    by (simp add: example_four_calls_def example_calls_def)
  note run = call_tool_answers_calls_with_ids
                [OF h1 h2 h3, of exact_rt example_env "[]", unfolded served ids len]
  from h1 h2 h3 run show ?thesis
    by (intro conjI)
qed

text \<open>
  A tool call whose id is \<^verbatim>\<open>None\<close> is not answered. The construction of its
  ToolMessage raises, and it raises again in the handler of the outer \<^verbatim>\<open>try\<close>, where
  \<^verbatim>\<open>tool_call.get("id", "unknown")\<close> gives \<^verbatim>\<open>None\<close>; that exception leaves
  \<^verbatim>\<open>call_tool\<close> after the transport has served the calls up to this one.
\<close>

lemma call_tool_raises_without_id:
  assumes "messages st \<noteq> []" and "last (messages st) = AIMessage c (before @ tc # rest)"
    and "list_all (\<lambda>tc. tc_id tc \<noteq> None) before" and "tc_id tc = None"
  shows "call_tool F E st w
           = (Inl validation_error,
              fold (\<lambda>tc w. snd (mcp_call_tool E (''math_tools.'' @ tc_name tc) (tc_args tc) w))
                (before @ [tc]) w)"
  using call_tool_loop_without_id [OF assms(3) assms(4), of F E rest "[]" w]
    call_tool_unfold [OF assms(1), of F E w] assms(2)
  by simp


subsection \<open>A tool the server does not have\<close>

text \<open>
  C7 (as the code has it). \<^verbatim>\<open>call_tool\<close> has no lookup of its own: the name goes to the
  transport, and whatever the transport raises is answered by the handler of the outer
  \<^verbatim>\<open>try\<close>. When the transport raises for a tool call that carries an id, the call is
  answered with a ToolMessage whose content is exactly
  \<^verbatim>\<open>Error calling tool <name>: <text of the exception>\<close> and whose id is the call's; the
  exception is not propagated, and the loop goes on with the next tool call.
\<close>

theorem C7_transport_failure_is_answered:
  assumes "mcp_call_tool E (''math_tools.'' @ tc_name tc) (tc_args tc) w = (Inl e, w')"
    and "tc_id tc = Some i"
  shows "call_one F E tc w
           = (Inr (ToolMessage (''Error calling tool '' @ tc_name tc @ '': '' @ exn_str e) i), w')
         \<and> call_tool_loop F E (tc # rest) acc w
           = call_tool_loop F E rest
               (acc @ [ToolMessage (''Error calling tool '' @ tc_name tc @ '': '' @ exn_str e) i]) w'"
proof -
  have "call_one F E tc w
          = (Inr (ToolMessage (''Error calling tool '' @ tc_name tc @ '': '' @ exn_str e) i), w')"
    using assms by (simp add: call_one_def tool_attempt_def new_tool_message_def)
  then show ?thesis
    by simp
qed

theorem C7_transport_failure_is_answered_witness:
  "mcp_call_tool example_env (''math_tools.'' @ tc_name (example_calls ! 1))
       (tc_args (example_calls ! 1)) []
     = (Inl (Exn ValueError ''Unknown tool: math_tools.frobnicate''), [''math_tools.frobnicate''])
   \<and> tc_id (example_calls ! 1) = Some ''call_2''
   \<and> call_one exact_rt example_env (example_calls ! 1) []
     = (Inr (ToolMessage ''Error calling tool frobnicate: Unknown tool: math_tools.frobnicate''
               ''call_2''),
        [''math_tools.frobnicate''])"
proof -
  have h: "mcp_call_tool example_env (''math_tools.'' @ tc_name (example_calls ! 1))
               (tc_args (example_calls ! 1)) []
             = (Inl (Exn ValueError ''Unknown tool: math_tools.frobnicate''),
                [''math_tools.frobnicate''])"
    by (simp add: example_env_def example_transport_def example_calls_def)
  have i: "tc_id (example_calls ! 1) = Some ''call_2''"
    by (simp add: example_calls_def)
  have n: "''Error calling tool '' @ tc_name (example_calls ! 1) @ '': ''
             @ exn_str (Exn ValueError ''Unknown tool: math_tools.frobnicate'')
           = ''Error calling tool frobnicate: Unknown tool: math_tools.frobnicate''"
    by (simp add: example_calls_def)
  note answered = C7_transport_failure_is_answered
                    [OF h i, of exact_rt "[]" "[]", unfolded n, THEN conjunct1]
  from h i answered show ?thesis
    by (intro conjI)
qed

text \<open>
  C7 as stated gives the message \<^verbatim>\<open>unknown tool: <name>\<close>. For a call of the tool
  \<^verbatim>\<open>frobnicate\<close>, which the server does not have, the message is another one.
\<close>

theorem C7_unknown_tool_message_counterexample:
  "call_tool exact_rt example_env
     \<lparr> messages =
         [AIMessage [] [\<lparr> tc_name = ''frobnicate'', tc_args = [], tc_id = Some ''call_2'' \<rparr>]] \<rparr> []
   = (Inr [ToolMessage ''Error calling tool frobnicate: Unknown tool: math_tools.frobnicate''
             ''call_2''],
      [''math_tools.frobnicate''])"
  by (simp add: call_tool_def call_one_def tool_attempt_def example_env_def
        example_transport_def new_tool_message_def)

subsection \<open>The tools bound to the model\<close>

text \<open>
  The list at line 54 of \<^verbatim>\<open>graph.py\<close> is the reference tool set of the specification.
\<close>

lemma llm_tools_54_is_reference_set: "map tool_signature llm_tools_54 = reference_tools"
  by (simp add: llm_tools_54_def tool_signature_def reference_tools_def number_param_def)

text \<open>
  \<^verbatim>\<open>call_llm\<close> reads \<^verbatim>\<open>llm_with_tools\<close> when it runs, after the module has rebound
  it at line 179: the model is invoked with the schemas of line 162.
\<close>

lemma call_llm_uses_last_binding:
  "call_llm module_init E st w =
     (case llm_invoke E (bind_tools llm_tools_162 ''auto'')
             (if list_ex is_system (messages st) then messages st
              else SystemMessage MATH_SYSTEM_PROMPT # messages st) w of
        (Inl e, w') \<Rightarrow> (Inl e, w')
      | (Inr (c, tcs), w') \<Rightarrow> (Inr [AIMessage c tcs], w'))"
  by (simp add: call_llm_def module_init_def Let_def)

text \<open>
  C1 (what the code does). After the module's statements have run, the schemas bound to
  the client that \<^verbatim>\<open>call_llm\<close> invokes are the single tool
  \<^verbatim>\<open>add_numbers(a: integer, b: integer)\<close>, which is not the reference tool set: the
  second assignment to \<^verbatim>\<open>llm_with_tools\<close> replaces the binding of the seven tools.
\<close>

theorem C1_bound_tools_after_module_init:
  "map tool_signature (bound_tools (llm_with_tools module_init))
     = [(''add_numbers'', [(''a'', ''integer''), (''b'', ''integer'')])]
   \<and> set (map tool_signature (bound_tools (llm_with_tools module_init))) \<noteq> set reference_tools"
  by (simp add: module_init_def Let_def bind_tools_def llm_tools_162_def tool_signature_def
        reference_tools_def)

subsection \<open>Steps of the graph\<close>

lemma node_names_differ:
  "''call_llm_node'' \<noteq> END" "''call_tool_node'' \<noteq> END" "''call_tool'' \<noteq> END"
  "END \<noteq> ''call_llm_node''" "END \<noteq> ''call_tool_node''" "END \<noteq> ''call_tool''"
  "START \<noteq> ''call_tool_node''" "START \<noteq> ''call_llm_node''"
  by (simp_all add: END_def START_def)

lemma should_call_tool_after_response:
  "should_call_tool (st\<lparr>messages := messages_reducer (messages st) [AIMessage c tcs]\<rparr>)
     = Inr (if tcs = [] then END else ''call_tool'')"
  by (simp add: should_call_tool_def messages_reducer_def)

lemma graph_step_call_llm_node:
  assumes "call_llm G E st w = (Inr [AIMessage c tcs], w')"
  shows "graph_step (workflow F G E) ''call_llm_node'' st w
           = (Inr (if tcs = [] then END else ''call_tool_node'',
                   st\<lparr>messages := messages st @ [AIMessage c tcs]\<rparr>), w')"
  using assms
  by (simp add: graph_step_def workflow_def next_node_def should_call_tool_def
        messages_reducer_def node_names_differ)

lemma graph_step_call_tool_node:
  assumes "call_tool F E st w = (Inr ms, w')"
  shows "graph_step (workflow F G E) ''call_tool_node'' st w
           = (Inr (''call_llm_node'', st\<lparr>messages := messages st @ ms\<rparr>), w')"
  using assms
  by (simp add: graph_step_def workflow_def next_node_def messages_reducer_def node_names_differ)

lemma run_graph_END: "run_graph (Suc k) g END st w = (Inr st, w)"
  by simp

lemma graph_step_call_tool_node_raises:
  assumes "call_tool F E st w = (Inl e, w')"
  shows "graph_step (workflow F G E) ''call_tool_node'' st w = (Inl e, w')"
  using assms
  by (simp add: graph_step_def workflow_def)

lemma call_llm_update:
  "call_llm G E st w = (Inr upd, w') \<Longrightarrow> \<exists>c tcs. upd = [AIMessage c tcs]"
  by (auto simp: call_llm_def Let_def split: prod.splits sum.splits)

lemma run_graph_returns_after_plain_response:
  assumes "n = ''call_llm_node'' \<or> n = ''call_tool_node''"
    and "run_graph k (workflow F G E) n st w = (Inr st', w')"
  shows "\<exists>c. messages st' \<noteq> [] \<and> last (messages st') = AIMessage c []"
  using assms
proof (induction k arbitrary: n st w)
  case 0
  then show ?case
    by simp
next
  case (Suc k)
  from Suc.prems(1) show ?case
  proof
    assume n: "n = ''call_llm_node''"
    show ?thesis
    proof (cases "call_llm G E st w")
      case (Pair r w1)
      show ?thesis
      proof (cases r)
        case (Inl e)
        then show ?thesis
          using Suc.prems(2) n Pair
          by (simp add: node_names_differ graph_step_def workflow_def)
      next
        case (Inr upd)
        then obtain c tcs where u: "upd = [AIMessage c tcs]"
          using call_llm_update [of G E st w upd w1] Pair by auto
        have s: "graph_step (workflow F G E) ''call_llm_node'' st w
                   = (Inr (if tcs = [] then END else ''call_tool_node'',
                           st\<lparr>messages := messages st @ [AIMessage c tcs]\<rparr>), w1)"
          using graph_step_call_llm_node [of G E st w c tcs w1 F] Pair Inr u by simp
        show ?thesis
        proof (cases "tcs = []")
          case True
          then have "run_graph k (workflow F G E) END
                       (st\<lparr>messages := messages st @ [AIMessage c tcs]\<rparr>) w1 = (Inr st', w')"
            using Suc.prems(2) n s by (simp add: node_names_differ)
          then have "st' = st\<lparr>messages := messages st @ [AIMessage c tcs]\<rparr>"
            by (cases k) simp_all
          then show ?thesis
            using True by simp
        next
          case False
          then have "run_graph k (workflow F G E) ''call_tool_node''
                       (st\<lparr>messages := messages st @ [AIMessage c tcs]\<rparr>) w1 = (Inr st', w')"
            using Suc.prems(2) n s by (simp add: node_names_differ)
          then show ?thesis
            using Suc.IH [of "''call_tool_node''"] by simp
        qed
      qed
    qed
  next
    assume n: "n = ''call_tool_node''"
    show ?thesis
    proof (cases "call_tool F E st w")
      case (Pair r w1)
      show ?thesis
      proof (cases r)
        case (Inl e)
        then show ?thesis
          using Suc.prems(2) n Pair
          by (simp add: node_names_differ graph_step_def workflow_def)
      next
        case (Inr ms)
        have "graph_step (workflow F G E) ''call_tool_node'' st w
                = (Inr (''call_llm_node'', st\<lparr>messages := messages st @ ms\<rparr>), w1)"
          using graph_step_call_tool_node [of F E st w ms w1 G] Pair Inr by simp
        then have "run_graph k (workflow F G E) ''call_llm_node''
                     (st\<lparr>messages := messages st @ ms\<rparr>) w1 = (Inr st', w')"
          using Suc.prems(2) n by (simp add: node_names_differ)
        then show ?thesis
          using Suc.IH [of "''call_llm_node''"] by simp
      qed
    qed
  qed
qed

lemma example_tool_step:
  "call_tool exact_rt example_env example_asked []
     = (Inr [ToolMessage ''## Calculation: '' ''call_1'',
             ToolMessage ''Error calling tool frobnicate: Unknown tool: math_tools.frobnicate''
               ''call_2''],
        [''math_tools.empty'', ''math_tools.frobnicate''])"
  by code_simp

subsection \<open>The end of the loop\<close>

text \<open>
  C5. Let the model answer the call of \<^verbatim>\<open>call_llm\<close> in state \<open>st\<close> with the content
  \<open>c\<close> and the tool calls \<open>tcs\<close>. The step of \<^verbatim>\<open>call_llm_node\<close> appends the response
  to the messages and routes to \<open>END\<close> exactly when \<open>tcs\<close> is empty, and to
  \<^verbatim>\<open>call_tool_node\<close> otherwise. With no tool calls the run, under any recursion limit
  that allows one step, returns the state with the response as its last message. With
  tool calls, \<^verbatim>\<open>call_tool\<close> runs on the state with the response: when it returns its
  messages they are appended and the run goes on at \<^verbatim>\<open>call_llm_node\<close>, and when it
  raises the run ends in its exception. Whenever a run returns a state, the last message
  of that state is a response without tool calls.
\<close>

theorem C5_loop_ends_on_response_without_tool_calls:
  assumes "call_llm G E st w = (Inr [AIMessage c tcs], w1)"
  shows "graph_step (workflow F G E) ''call_llm_node'' st w
           = (Inr (if tcs = [] then END else ''call_tool_node'',
                   st\<lparr>messages := messages st @ [AIMessage c tcs]\<rparr>), w1)
         \<and> (tcs = [] \<longrightarrow>
              run_graph (Suc (Suc k)) (workflow F G E) ''call_llm_node'' st w
                = (Inr (st\<lparr>messages := messages st @ [AIMessage c []]\<rparr>), w1))
         \<and> (tcs \<noteq> [] \<longrightarrow>
              run_graph (Suc (Suc k)) (workflow F G E) ''call_llm_node'' st w
                = (case call_tool F E (st\<lparr>messages := messages st @ [AIMessage c tcs]\<rparr>) w1 of
                     (Inl e, w2) \<Rightarrow> (Inl e, w2)
                   | (Inr ms, w2) \<Rightarrow>
                       run_graph k (workflow F G E) ''call_llm_node''
                         (st\<lparr>messages := messages st @ [AIMessage c tcs] @ ms\<rparr>) w2))
         \<and> (\<forall>st' w'. run_graph k (workflow F G E) ''call_llm_node'' st w = (Inr st', w')
                \<longrightarrow> (\<exists>c'. messages st' \<noteq> [] \<and> last (messages st') = AIMessage c' []))"
proof -
  let ?st1 = "st\<lparr>messages := messages st @ [AIMessage c tcs]\<rparr>"
  have s: "graph_step (workflow F G E) ''call_llm_node'' st w
             = (Inr (if tcs = [] then END else ''call_tool_node'', ?st1), w1)"
    using graph_step_call_llm_node [OF assms] .
  have a: "tcs = [] \<longrightarrow>
             run_graph (Suc (Suc k)) (workflow F G E) ''call_llm_node'' st w
               = (Inr (st\<lparr>messages := messages st @ [AIMessage c []]\<rparr>), w1)"
    using s by (simp add: node_names_differ)
  have b: "tcs \<noteq> [] \<longrightarrow>
             run_graph (Suc (Suc k)) (workflow F G E) ''call_llm_node'' st w
               = (case call_tool F E ?st1 w1 of
                    (Inl e, w2) \<Rightarrow> (Inl e, w2)
                  | (Inr ms, w2) \<Rightarrow>
                      run_graph k (workflow F G E) ''call_llm_node''
                        (st\<lparr>messages := messages st @ [AIMessage c tcs] @ ms\<rparr>) w2)"
  proof
    assume t: "tcs \<noteq> []"
    obtain r w2 where m: "call_tool F E ?st1 w1 = (r, w2)"
      by (cases "call_tool F E ?st1 w1")
    show "run_graph (Suc (Suc k)) (workflow F G E) ''call_llm_node'' st w
            = (case call_tool F E ?st1 w1 of
                 (Inl e, w2) \<Rightarrow> (Inl e, w2)
               | (Inr ms, w2) \<Rightarrow>
                   run_graph k (workflow F G E) ''call_llm_node''
                     (st\<lparr>messages := messages st @ [AIMessage c tcs] @ ms\<rparr>) w2)"
    proof (cases r)
      case (Inl e)
      then have "graph_step (workflow F G E) ''call_tool_node'' ?st1 w1 = (Inl e, w2)"
        using graph_step_call_tool_node_raises [of F E ?st1 w1 e w2 G] m by simp
      then show ?thesis
        using s t m Inl by (simp add: node_names_differ)
    next
      case (Inr ms)
      then have "graph_step (workflow F G E) ''call_tool_node'' ?st1 w1
                   = (Inr (''call_llm_node'', ?st1\<lparr>messages := messages ?st1 @ ms\<rparr>), w2)"
        using graph_step_call_tool_node [of F E ?st1 w1 ms w2 G] m by simp
      then show ?thesis
        using s t m Inr by (simp add: node_names_differ)
    qed
  qed
  have e: "\<forall>st' w'. run_graph k (workflow F G E) ''call_llm_node'' st w = (Inr st', w')
             \<longrightarrow> (\<exists>c'. messages st' \<noteq> [] \<and> last (messages st') = AIMessage c' [])"
    using run_graph_returns_after_plain_response [of "''call_llm_node''" k F G E st w]
    by blast
  from s a b e show ?thesis
    by (intro conjI)
qed

theorem C5_loop_ends_on_response_without_tool_calls_witness:
  "call_llm module_init example_env example_start [] = (Inr [AIMessage [] example_calls], [])
   \<and> graph_step (workflow exact_rt module_init example_env) ''call_llm_node'' example_start []
     = (Inr (''call_tool_node'', example_asked), [])
   \<and> run_graph 4 (workflow exact_rt module_init example_env) ''call_llm_node'' example_start []
     = run_graph 2 (workflow exact_rt module_init example_env) ''call_llm_node'' example_answered
         [''math_tools.empty'', ''math_tools.frobnicate'']
   \<and> call_llm module_init example_env example_answered
       [''math_tools.empty'', ''math_tools.frobnicate'']
     = (Inr [AIMessage ''Done.'' []], [''math_tools.empty'', ''math_tools.frobnicate''])
   \<and> run_graph 2 (workflow exact_rt module_init example_env) ''call_llm_node'' example_answered
       [''math_tools.empty'', ''math_tools.frobnicate'']
     = (Inr \<lparr> messages = messages example_answered @ [AIMessage ''Done.'' []] \<rparr>,
        [''math_tools.empty'', ''math_tools.frobnicate''])"
proof -
  let ?g = "workflow exact_rt module_init example_env"
  let ?w = "[''math_tools.empty'', ''math_tools.frobnicate'']"
  have h1: "call_llm module_init example_env example_start []
              = (Inr [AIMessage [] example_calls], [])"
    by (simp add: call_llm_def example_env_def example_llm_def example_start_def)
  have h2: "call_llm module_init example_env example_answered ?w
              = (Inr [AIMessage ''Done.'' []], ?w)"
    by (simp add: call_llm_def example_env_def example_llm_def example_answered_def)
  have t: "example_calls \<noteq> []"
    by (simp add: example_calls_def)
  have a: "example_start\<lparr>messages := messages example_start @ [AIMessage [] example_calls]\<rparr>
             = example_asked"
    by (simp add: example_start_def example_asked_def)
  have r1: "graph_step ?g ''call_llm_node'' example_start []
              = (Inr (''call_tool_node'', example_asked), [])"
    using C5_loop_ends_on_response_without_tool_calls [OF h1, of exact_rt 0, THEN conjunct1] t a
    by simp
  have b: "example_start\<lparr>messages := messages example_start @ [AIMessage [] example_calls]
             @ [ToolMessage ''## Calculation: '' ''call_1'',
                ToolMessage ''Error calling tool frobnicate: Unknown tool: math_tools.frobnicate''
                  ''call_2'']\<rparr>
             = example_answered"
    by (simp add: example_start_def example_answered_def)
  have r2: "run_graph 4 ?g ''call_llm_node'' example_start []
              = run_graph 2 ?g ''call_llm_node'' example_answered ?w"
    using C5_loop_ends_on_response_without_tool_calls
            [OF h1, of exact_rt 2, THEN conjunct2, THEN conjunct2, THEN conjunct1] t a b
      example_tool_step
    by (simp add: numeral_eq_Suc)
  have r3: "run_graph 2 ?g ''call_llm_node'' example_answered ?w
              = (Inr \<lparr> messages = messages example_answered @ [AIMessage ''Done.'' []] \<rparr>, ?w)"
    using C5_loop_ends_on_response_without_tool_calls
            [OF h2, of exact_rt 0, THEN conjunct2, THEN conjunct1]
    by (simp add: numeral_eq_Suc example_answered_def)
  from h1 r1 r2 h2 r3 show ?thesis
    by (intro conjI)
qed

subsection \<open>The system prompt and the stored messages\<close>

lemma tool_messages_not_system: "list_all is_tool_message ms \<Longrightarrow> \<not> list_ex is_system ms"
proof (induction ms)
  case Nil
  then show ?case by simp
next
  case (Cons m ms)
  then show ?case by (cases m) simp_all
qed

lemma graph_step_appends:
  assumes "graph_step (workflow F G E) n st w = (Inr (n', st'), w')"
  shows "\<exists>upd. messages st' = messages st @ upd \<and> \<not> list_ex is_system upd"
proof -
  consider (llm) "n = ''call_llm_node''" | (tool) "n = ''call_tool_node''"
    | (other) "n \<noteq> ''call_llm_node''" "n \<noteq> ''call_tool_node''"
    by blast
  then show ?thesis
  proof cases
    case llm
    show ?thesis
    proof (cases "call_llm G E st w")
      case (Pair r w1)
      show ?thesis
      proof (cases r)
        case (Inl e)
        then show ?thesis
          using assms llm Pair by (simp add: graph_step_def workflow_def)
      next
        case (Inr upd)
        then obtain c tcs where u: "upd = [AIMessage c tcs]"
          using call_llm_update [of G E st w upd w1] Pair by auto
        have "graph_step (workflow F G E) ''call_llm_node'' st w
                = (Inr (if tcs = [] then END else ''call_tool_node'',
                        st\<lparr>messages := messages st @ [AIMessage c tcs]\<rparr>), w1)"
          using graph_step_call_llm_node [of G E st w c tcs w1 F] Pair Inr u by simp
        then have "messages st' = messages st @ [AIMessage c tcs]"
          using assms llm by auto
        then show ?thesis
          by simp
      qed
    qed
  next
    case tool
    show ?thesis
    proof (cases "call_tool F E st w")
      case (Pair r w1)
      show ?thesis
      proof (cases r)
        case (Inl e)
        then show ?thesis
          using assms tool Pair by (simp add: graph_step_def workflow_def)
      next
        case (Inr ms)
        have "graph_step (workflow F G E) ''call_tool_node'' st w
                = (Inr (''call_llm_node'', st\<lparr>messages := messages st @ ms\<rparr>), w1)"
          using graph_step_call_tool_node [of F E st w ms w1 G] Pair Inr by simp
        then have "messages st' = messages st @ ms"
          using assms tool by auto
        moreover have "\<not> list_ex is_system ms"
          using call_tool_update [of F E st w ms w1] Pair Inr tool_messages_not_system by simp
        ultimately show ?thesis
          by simp
      qed
    qed
  next
    case other
    then show ?thesis
      using assms by (simp add: graph_step_def workflow_def)
  qed
qed

lemma visits_keeps_no_system:
  assumes "visits (workflow F G E) c c'"
    and "\<not> list_ex is_system (messages (fst (snd c)))"
  shows "\<not> list_ex is_system (messages (fst (snd c')))"
  using assms
proof (induction rule: visits.induct)
  case visits_here
  then show ?case by simp
next
  case (visits_step n state w n' state' w')
  obtain upd where "messages state' = messages state @ upd" and "\<not> list_ex is_system upd"
    using graph_step_appends [OF visits_step.hyps(3)] by blast
  then show ?case
    using visits_step by simp
qed

text \<open>
  C10. Take a run that starts at \<^verbatim>\<open>call_llm_node\<close> in a state whose messages hold no
  SystemMessage. In every configuration the run passes through, the stored messages hold
  no SystemMessage; \<^verbatim>\<open>call_llm\<close> there hands the model the system prompt followed by
  the stored messages; and the update \<^verbatim>\<open>call_llm\<close> returns is the model's response
  alone.
\<close>

theorem C10_system_prompt_is_never_stored:
  assumes "\<not> list_ex is_system (messages st0)"
    and "visits (workflow F G E) (''call_llm_node'', st0, w0) (n, st, w)"
  shows "\<not> list_ex is_system (messages st)
         \<and> call_llm G E st w
             = (case llm_invoke E (llm_with_tools G)
                       (SystemMessage MATH_SYSTEM_PROMPT # messages st) w of
                  (Inl e, w') \<Rightarrow> (Inl e, w')
                | (Inr (c, tcs), w') \<Rightarrow> (Inr [AIMessage c tcs], w'))
         \<and> (\<forall>upd w'. call_llm G E st w = (Inr upd, w') \<longrightarrow> (\<exists>c tcs. upd = [AIMessage c tcs]))"
proof -
  have i: "\<not> list_ex is_system (messages st)"
    using visits_keeps_no_system [OF assms(2)] assms(1) by simp
  then have p: "call_llm G E st w
             = (case llm_invoke E (llm_with_tools G)
                       (SystemMessage MATH_SYSTEM_PROMPT # messages st) w of
                  (Inl e, w') \<Rightarrow> (Inl e, w')
                | (Inr (c, tcs), w') \<Rightarrow> (Inr [AIMessage c tcs], w'))"
    by (simp add: call_llm_def)
  have u: "\<forall>upd w'. call_llm G E st w = (Inr upd, w') \<longrightarrow> (\<exists>c tcs. upd = [AIMessage c tcs])"
    using call_llm_update [of G E st w] by blast
  from i p u show ?thesis
    by (intro conjI)
qed

lemma example_visits:
  "visits (workflow exact_rt module_init example_env) (''call_llm_node'', example_start, [])
     (''call_llm_node'', example_answered, [''math_tools.empty'', ''math_tools.frobnicate''])"
proof -
  let ?g = "workflow exact_rt module_init example_env"
  have l: "call_llm module_init example_env example_start []
             = (Inr [AIMessage [] example_calls], [])"
    by (simp add: call_llm_def example_env_def example_llm_def example_start_def)
  have t: "example_calls \<noteq> []"
    by (simp add: example_calls_def)
  have s1: "graph_step ?g ''call_llm_node'' example_start []
              = (Inr (''call_tool_node'', example_asked), [])"
    using graph_step_call_llm_node [OF l, of exact_rt] t
    by (simp add: example_start_def example_asked_def)
  have s2: "graph_step ?g ''call_tool_node'' example_asked []
              = (Inr (''call_llm_node'', example_answered),
                 [''math_tools.empty'', ''math_tools.frobnicate''])"
    using graph_step_call_tool_node [OF example_tool_step, of module_init]
    by (simp add: example_asked_def example_answered_def)
  have "visits ?g (''call_llm_node'', example_start, []) (''call_llm_node'', example_start, [])"
    by (rule visits_here)
  then have "visits ?g (''call_llm_node'', example_start, []) (''call_tool_node'', example_asked, [])"
    using node_names_differ(1) s1 by (rule visits_step)
  then show ?thesis
    using node_names_differ(2) s2 by (rule visits_step)
qed

theorem C10_system_prompt_is_never_stored_witness:
  "\<not> list_ex is_system (messages example_start)
   \<and> visits (workflow exact_rt module_init example_env) (''call_llm_node'', example_start, [])
       (''call_llm_node'', example_answered, [''math_tools.empty'', ''math_tools.frobnicate''])
   \<and> \<not> list_ex is_system (messages example_answered)
   \<and> call_llm module_init example_env example_answered
         [''math_tools.empty'', ''math_tools.frobnicate'']
       = (case llm_invoke example_env (llm_with_tools module_init)
                 (SystemMessage MATH_SYSTEM_PROMPT # messages example_answered)
                 [''math_tools.empty'', ''math_tools.frobnicate''] of
            (Inl e, w') \<Rightarrow> (Inl e, w')
          | (Inr (c, tcs), w') \<Rightarrow> (Inr [AIMessage c tcs], w'))"
proof -
  have h: "\<not> list_ex is_system (messages example_start)"
    by (simp add: example_start_def)
  note kept = C10_system_prompt_is_never_stored [OF h example_visits]
  from h example_visits kept [THEN conjunct1] kept [THEN conjunct2, THEN conjunct1]
  show ?thesis
    by (intro conjI)
qed

subsection \<open>The equation solver\<close>

lemma solve_equation_of_try:
  "solve_equation F equation =
     (case solve_equation_try F equation of
        Inl e \<Rightarrow> Inr (solve_error equation (exn_str e))
      | Inr d \<Rightarrow> Inr d)"
  by (simp add: solve_equation_def solve_error_def split: sum.splits)

lemma solve_equation_try_of_terms:
  "solve_equation_try F equation =
     (case equation_terms F equation of
        Inl e \<Rightarrow> Inl e
      | Inr (left, right, a, b, c) \<Rightarrow>
          (case num_sub F (PyFloat c) (PyFloat b) of
             Inl e \<Rightarrow> Inl e
           | Inr d \<Rightarrow>
               (case num_truediv F d (PyFloat a) of
                  Inl e \<Rightarrow> Inl e
                | Inr x \<Rightarrow> Inr
                    [(''operation'', VStr ''solve_equation''),
                     (''equation'', VStr equation),
                     (''result'', VNum x),
                     (''steps'', VList
                        [VStr (''Step 1: Start with the equation: '' @ equation),
                         VStr ''Step 2: Isolate the variable x'',
                         VStr (left @ '' = '' @ right),
                         VStr (str_replace CHR ''+'' ''-'' left @ '' = '' @ right
                                 @ '' - '' @ fmt F (PyFloat b)),
                         VStr (fmt F (PyFloat a) @ ''x = '' @ fmt F d),
                         VStr (''x = ('' @ fmt F (PyFloat c) @ '' - ''
                                 @ fmt F (PyFloat b) @ '') / '' @ fmt F (PyFloat a)),
                         VStr (''x = '' @ fmt F x),
                         VStr (''Final solution: x = '' @ fmt F x)])])))"
  by (auto simp: solve_equation_try_def equation_terms_def Let_def
           split: sum.splits list.splits)














text \<open>
  C9. When the terms of the equation are read without an exception, the coefficient
  \<^verbatim>\<open>a\<close> is zero and the difference \<^verbatim>\<open>c - b\<close> is \<open>d\<close>, the division \<^verbatim>\<open>(c - b) / a\<close>
  raises ZeroDivisionError and \<^verbatim>\<open>solve_equation\<close> returns the error dictionary with the
  text of that exception: it neither raises nor returns a result.
\<close>

theorem C9_zero_coefficient_gives_error_dictionary:
  assumes "equation_terms F equation = Inr (left, right, a, b, c)"
    and "fl_eq0 F a"
    and "num_sub F (PyFloat c) (PyFloat b) = Inr d"
  shows "num_truediv F d (PyFloat a) = Inl (Exn ZeroDivisionError ''float division by zero'')
         \<and> solve_equation F equation = Inr (solve_error equation ''float division by zero'')"
proof -
  have z: "num_truediv F d (PyFloat a) = Inl (Exn ZeroDivisionError ''float division by zero'')"
    using assms(2) by (cases d) (simp_all add: num_truediv_def)
  then have "solve_equation_try F equation = Inl (Exn ZeroDivisionError ''float division by zero'')"
    using assms(1) assms(3) by (simp add: solve_equation_try_of_terms)
  then have "solve_equation F equation = Inr (solve_error equation ''float division by zero'')"
    by (simp add: solve_equation_of_try)
  with z show ?thesis
    by (intro conjI)
qed

theorem C9_zero_coefficient_gives_error_dictionary_witness:
  "equation_terms exact_rt ''0x + 3 = 7'' = Inr (''0x+3'', ''7'', 0, 3, 7)
   \<and> fl_eq0 exact_rt 0
   \<and> num_sub exact_rt (PyFloat 7) (PyFloat 3) = Inr (PyFloat 4)
   \<and> solve_equation exact_rt ''0x + 3 = 7''
       = Inr (solve_error ''0x + 3 = 7'' ''float division by zero'')"
proof -
  have h1: "equation_terms exact_rt ''0x + 3 = 7'' = Inr (''0x+3'', ''7'', 0, 3, 7)"
    by code_simp
  have h2: "fl_eq0 exact_rt 0"
    by (simp add: exact_rt_def)
  have h3: "num_sub exact_rt (PyFloat 7) (PyFloat 3) = Inr (PyFloat 4)"
    by (simp add: exact_rt_def)
  from h1 h2 h3
    C9_zero_coefficient_gives_error_dictionary [OF h1 h2 h3, THEN conjunct2]
  show ?thesis
    by (intro conjI)
qed

text \<open>
  C4 (what the code does). In \<^verbatim>\<open>x + 3 = 7\<close> the part before the \<^verbatim>\<open>+\<close> is \<^verbatim>\<open>x\<close>, which
  holds an \<^verbatim>\<open>x\<close>: the code converts what is left of it after the \<^verbatim>\<open>x\<close> is removed, the
  empty string, and \<^verbatim>\<open>float("")\<close> raises. The default \<^verbatim>\<open>1.0\<close> is taken only when the
  part before the \<^verbatim>\<open>+\<close> has no \<^verbatim>\<open>x\<close>. The call returns the error dictionary, not the
  result \<^verbatim>\<open>4.0\<close>.
\<close>

theorem C4_omitted_coefficient_gives_error_dictionary:
  "solve_equation exact_rt ''x + 3 = 7''
     = Inr (solve_error ''x + 3 = 7'' (''could not convert string to float: '' @ quoted []))"
  by code_simp

text \<open>
  With a coefficient written out the solver computes \<^verbatim>\<open>(c - b) / a\<close>: for terms read
  without an exception, a coefficient that is not zero, the difference \<open>d\<close> and the
  quotient \<open>x\<close>, the result of the dictionary is \<open>x\<close>.
\<close>

lemma solve_equation_result:
  assumes "equation_terms F equation = Inr (left, right, a, b, c)"
    and "\<not> fl_eq0 F a"
    and "num_sub F (PyFloat c) (PyFloat b) = Inr d"
    and "fl_truediv F d (PyFloat a) = Inr x"
  shows "\<exists>r. solve_equation F equation = Inr r \<and> map_of r ''result'' = Some (VNum (PyFloat x))
              \<and> map_of r ''error'' = None"
  using assms
  by (simp add: solve_equation_of_try solve_equation_try_of_terms num_truediv_def)

lemma solve_equation_2x_plus_3_is_7:
  "\<exists>r. solve_equation exact_rt ''2x + 3 = 7'' = Inr r
        \<and> map_of r ''result'' = Some (VNum (PyFloat 2))"
proof -
  have h1: "equation_terms exact_rt ''2x + 3 = 7'' = Inr (''2x+3'', ''7'', 2, 3, 7)"
    by code_simp
  have h2: "\<not> fl_eq0 exact_rt 2"
    by (simp add: exact_rt_def)
  have h3: "num_sub exact_rt (PyFloat 7) (PyFloat 3) = Inr (PyFloat 4)"
    by (simp add: exact_rt_def)
  have h4: "fl_truediv exact_rt (PyFloat 4) (PyFloat 2) = Inr 2"
    by (simp add: exact_rt_def)
  from solve_equation_result [OF h1 h2 h3 h4] show ?thesis
    by blast
qed

subsection \<open>Step traces\<close>

text \<open>
  C8. Whenever one of the seven handlers returns a dictionary without an error field,
  the dictionary has a result and a step list that is not empty, and the last step is the
  final line stating the result: \<^verbatim>\<open>Final result: <result>\<close> for the six arithmetic
  tools, \<^verbatim>\<open>Final solution: x = <result>\<close> for \<^verbatim>\<open>solve_equation\<close>.
\<close>

theorem C8_successful_results_end_with_final_line:
  "(add F a b = Inr d1 \<longrightarrow> ends_with_result F ''Final result: '' d1)
   \<and> (subtract F a b = Inr d2 \<longrightarrow> ends_with_result F ''Final result: '' d2)
   \<and> (multiply F a b = Inr d3 \<longrightarrow> ends_with_result F ''Final result: '' d3)
   \<and> (divide_tool F a b = Inr d4 \<longrightarrow> ends_with_result F ''Final result: '' d4)
   \<and> (power_tool F base exponent = Inr d5 \<longrightarrow> ends_with_result F ''Final result: '' d5)
   \<and> (square_root F number = Inr d6 \<longrightarrow> ends_with_result F ''Final result: '' d6)
   \<and> (solve_equation F equation = Inr d7 \<and> map_of d7 ''error'' = None \<longrightarrow>
        ends_with_result F ''Final solution: x = '' d7)"
proof -
  have 1: "add F a b = Inr d1 \<longrightarrow> ends_with_result F ''Final result: '' d1"
    by (auto simp: add_def ends_with_result_def fmt_def split: sum.splits)
  have 2: "subtract F a b = Inr d2 \<longrightarrow> ends_with_result F ''Final result: '' d2"
    by (auto simp: subtract_def ends_with_result_def fmt_def split: sum.splits)
  have 3: "multiply F a b = Inr d3 \<longrightarrow> ends_with_result F ''Final result: '' d3"
    by (auto simp: multiply_def ends_with_result_def fmt_def split: sum.splits)
  have 4: "divide_tool F a b = Inr d4 \<longrightarrow> ends_with_result F ''Final result: '' d4"
    by (auto simp: divide_tool_def ends_with_result_def fmt_def split: sum.splits if_splits)
  have 5: "power_tool F base exponent = Inr d5 \<longrightarrow> ends_with_result F ''Final result: '' d5"
    by (auto simp: power_tool_def ends_with_result_def fmt_def split: sum.splits)
  have 6: "square_root F number = Inr d6 \<longrightarrow> ends_with_result F ''Final result: '' d6"
    by (auto simp: square_root_def ends_with_result_def fmt_def Let_def
             split: sum.splits if_splits)
  have 7: "solve_equation F equation = Inr d7 \<and> map_of d7 ''error'' = None \<longrightarrow>
             ends_with_result F ''Final solution: x = '' d7"
    by (auto simp: solve_equation_of_try solve_equation_try_of_terms solve_error_def
                   ends_with_result_def fmt_def
             split: sum.splits prod.splits)
  from 1 2 3 4 5 6 7 show ?thesis
    by (intro conjI)
qed

lemma exact_sqrt_9: "exact_sqrt (PyInt 9) = Inr 3"
  by (simp add: exact_sqrt_def int_sqrt.simps sqrt_step_def)

theorem C8_successful_results_end_with_final_line_witness:
  "(\<exists>d. add exact_rt (PyInt 6) (PyInt 3) = Inr d
         \<and> ends_with_result exact_rt ''Final result: '' d
         \<and> map_of d ''steps''
             = Some (VList [VStr ''Step 1: Add 6 and 3'', VStr ''6 + 3 = 9'',
                            VStr ''Final result: 9'']))
   \<and> (\<exists>d. subtract exact_rt (PyInt 6) (PyInt 3) = Inr d
         \<and> ends_with_result exact_rt ''Final result: '' d
         \<and> map_of d ''result'' = Some (VNum (PyInt 3)))
   \<and> (\<exists>d. multiply exact_rt (PyInt 123) (PyInt 456) = Inr d
         \<and> ends_with_result exact_rt ''Final result: '' d
         \<and> map_of d ''result'' = Some (VNum (PyInt 56088)))
   \<and> (\<exists>d. divide_tool exact_rt (PyInt 6) (PyInt 3) = Inr d
         \<and> ends_with_result exact_rt ''Final result: '' d
         \<and> map_of d ''result'' = Some (VNum (PyFloat 2)))
   \<and> (\<exists>d. power_tool exact_rt (PyInt 2) (PyInt 3) = Inr d
         \<and> ends_with_result exact_rt ''Final result: '' d
         \<and> map_of d ''result'' = Some (VNum (PyInt 8)))
   \<and> (\<exists>d. square_root exact_rt (PyInt 9) = Inr d
         \<and> ends_with_result exact_rt ''Final result: '' d
         \<and> map_of d ''result'' = Some (VNum (PyFloat 3)))
   \<and> (\<exists>d. solve_equation exact_rt ''2x + 3 = 7'' = Inr d \<and> map_of d ''error'' = None
         \<and> ends_with_result exact_rt ''Final solution: x = '' d
         \<and> map_of d ''steps''
             = Some (VList [VStr ''Step 1: Start with the equation: 2x + 3 = 7'',
                            VStr ''Step 2: Isolate the variable x'', VStr ''2x+3 = 7'',
                            VStr ''2x-3 = 7 - 3.0'', VStr ''2.0x = 4.0'',
                            VStr ''x = (7.0 - 3.0) / 2.0'', VStr ''x = 2.0'',
                            VStr ''Final solution: x = 2.0'']))"
proof -
  let ?d1 = "projr (add exact_rt (PyInt 6) (PyInt 3))"
  let ?d2 = "projr (subtract exact_rt (PyInt 6) (PyInt 3))"
  let ?d3 = "projr (multiply exact_rt (PyInt 123) (PyInt 456))"
  let ?d4 = "projr (divide_tool exact_rt (PyInt 6) (PyInt 3))"
  let ?d5 = "projr (power_tool exact_rt (PyInt 2) (PyInt 3))"
  let ?d6 = "projr (square_root exact_rt (PyInt 9))"
  let ?d7 = "projr (solve_equation exact_rt ''2x + 3 = 7'')"
  have h1: "add exact_rt (PyInt 6) (PyInt 3) = Inr ?d1"
    by (simp add: add_def)
  have s1: "map_of ?d1 ''steps''
              = Some (VList [VStr ''Step 1: Add 6 and 3'', VStr ''6 + 3 = 9'',
                             VStr ''Final result: 9''])"
    by code_simp
  have h2: "subtract exact_rt (PyInt 6) (PyInt 3) = Inr ?d2"
    by (simp add: subtract_def)
  have s2: "map_of ?d2 ''result'' = Some (VNum (PyInt 3))"
    by (simp add: subtract_def)
  have h3: "multiply exact_rt (PyInt 123) (PyInt 456) = Inr ?d3"
    by (simp add: multiply_def)
  have s3: "map_of ?d3 ''result'' = Some (VNum (PyInt 56088))"
    by (simp add: multiply_def)
  have h4: "divide_tool exact_rt (PyInt 6) (PyInt 3) = Inr ?d4"
    by (simp add: divide_tool_def num_truediv_def exact_rt_def)
  have s4: "map_of ?d4 ''result'' = Some (VNum (PyFloat 2))"
    by (simp add: divide_tool_def num_truediv_def exact_rt_def)
  have h5: "power_tool exact_rt (PyInt 2) (PyInt 3) = Inr ?d5"
    by (simp add: power_tool_def)
  have s5: "map_of ?d5 ''result'' = Some (VNum (PyInt 8))"
    by (simp add: power_tool_def)
  have q: "math_sqrt exact_rt (PyInt 9) = Inr 3"
    by (simp add: exact_rt_def exact_sqrt_9)
  have h6: "square_root exact_rt (PyInt 9) = Inr ?d6"
    by (simp add: square_root_def q Let_def)
  have s6: "map_of ?d6 ''result'' = Some (VNum (PyFloat 3))"
    by (simp add: square_root_def q Let_def)
  have h7: "solve_equation exact_rt ''2x + 3 = 7'' = Inr ?d7 \<and> map_of ?d7 ''error'' = None"
    by code_simp
  have s7: "map_of ?d7 ''steps''
              = Some (VList [VStr ''Step 1: Start with the equation: 2x + 3 = 7'',
                             VStr ''Step 2: Isolate the variable x'', VStr ''2x+3 = 7'',
                             VStr ''2x-3 = 7 - 3.0'', VStr ''2.0x = 4.0'',
                             VStr ''x = (7.0 - 3.0) / 2.0'', VStr ''x = 2.0'',
                             VStr ''Final solution: x = 2.0''])"
    by code_simp
  note all = C8_successful_results_end_with_final_line
               [of exact_rt "PyInt 6" "PyInt 3" ?d1 ?d2 _ ?d4 "PyInt 2" "PyInt 3" ?d5 "PyInt 9"
                  ?d6 "''2x + 3 = 7''" ?d7]
  note mul = C8_successful_results_end_with_final_line
               [of exact_rt "PyInt 123" "PyInt 456" _ _ ?d3, THEN conjunct2, THEN conjunct2,
                THEN conjunct1]
  note e1 = all [THEN conjunct1, rule_format, OF h1]
  note e2 = all [THEN conjunct2, THEN conjunct1, rule_format, OF h2]
  note e3 = mul [rule_format, OF h3]
  note e4 = all [THEN conjunct2, THEN conjunct2, THEN conjunct2, THEN conjunct1, rule_format, OF h4]
  note e5 = all [THEN conjunct2, THEN conjunct2, THEN conjunct2, THEN conjunct2, THEN conjunct1,
                 rule_format, OF h5]
  note e6 = all [THEN conjunct2, THEN conjunct2, THEN conjunct2, THEN conjunct2, THEN conjunct2,
                 THEN conjunct1, rule_format, OF h6]
  note e7 = all [THEN conjunct2, THEN conjunct2, THEN conjunct2, THEN conjunct2, THEN conjunct2,
                 THEN conjunct2, rule_format, OF h7]
  from h1 e1 s1 have x1: "\<exists>d. add exact_rt (PyInt 6) (PyInt 3) = Inr d
         \<and> ends_with_result exact_rt ''Final result: '' d
         \<and> map_of d ''steps''
             = Some (VList [VStr ''Step 1: Add 6 and 3'', VStr ''6 + 3 = 9'',
                            VStr ''Final result: 9''])"
    by (intro exI [of _ ?d1] conjI)
  from h2 e2 s2 have x2: "\<exists>d. subtract exact_rt (PyInt 6) (PyInt 3) = Inr d
         \<and> ends_with_result exact_rt ''Final result: '' d
         \<and> map_of d ''result'' = Some (VNum (PyInt 3))"
    by (intro exI [of _ ?d2] conjI)
  from h3 e3 s3 have x3: "\<exists>d. multiply exact_rt (PyInt 123) (PyInt 456) = Inr d
         \<and> ends_with_result exact_rt ''Final result: '' d
         \<and> map_of d ''result'' = Some (VNum (PyInt 56088))"
    by (intro exI [of _ ?d3] conjI)
  from h4 e4 s4 have x4: "\<exists>d. divide_tool exact_rt (PyInt 6) (PyInt 3) = Inr d
         \<and> ends_with_result exact_rt ''Final result: '' d
         \<and> map_of d ''result'' = Some (VNum (PyFloat 2))"
    by (intro exI [of _ ?d4] conjI)
  from h5 e5 s5 have x5: "\<exists>d. power_tool exact_rt (PyInt 2) (PyInt 3) = Inr d
         \<and> ends_with_result exact_rt ''Final result: '' d
         \<and> map_of d ''result'' = Some (VNum (PyInt 8))"
    by (intro exI [of _ ?d5] conjI)
  from h6 e6 s6 have x6: "\<exists>d. square_root exact_rt (PyInt 9) = Inr d
         \<and> ends_with_result exact_rt ''Final result: '' d
         \<and> map_of d ''result'' = Some (VNum (PyFloat 3))"
    by (intro exI [of _ ?d6] conjI)
  from h7 [THEN conjunct1] h7 [THEN conjunct2] e7 s7
  have x7: "\<exists>d. solve_equation exact_rt ''2x + 3 = 7'' = Inr d \<and> map_of d ''error'' = None
         \<and> ends_with_result exact_rt ''Final solution: x = '' d
         \<and> map_of d ''steps''
             = Some (VList [VStr ''Step 1: Start with the equation: 2x + 3 = 7'',
                            VStr ''Step 2: Isolate the variable x'', VStr ''2x+3 = 7'',
                            VStr ''2x-3 = 7 - 3.0'', VStr ''2.0x = 4.0'',
                            VStr ''x = (7.0 - 3.0) / 2.0'', VStr ''x = 2.0'',
                            VStr ''Final solution: x = 2.0''])"
    by (intro exI [of _ ?d7] conjI)
  from x1 x2 x3 x4 x5 x6 x7 show ?thesis
    by (intro conjI)
qed

subsection \<open>A whole turn\<close>

text \<open>
  The example from its first message to the end: the model asks for two tools, both are
  answered (one with the error message of the outer handler), and the model's second
  response, without tool calls, ends the run. The run takes three node steps: a recursion
  limit of four lets it return, a limit of three cuts it off.
\<close>

lemma example_run:
  "test_agent_graph 4 exact_rt module_init example_env example_start []
     = (Inr \<lparr> messages = messages example_answered @ [AIMessage ''Done.'' []] \<rparr>,
        [''math_tools.empty'', ''math_tools.frobnicate''])"
  by code_simp

lemma example_run_cut_off:
  "test_agent_graph 3 exact_rt module_init example_env example_start []
     = (Inl (Exn GraphRecursionError ''Recursion limit reached''),
        [''math_tools.empty'', ''math_tools.frobnicate''])"
  by code_simp

end
